theory Spec2Isabelle
  imports Complex_Main
begin

section \<open>The propagation dispatcher of THOR: \<open>thor/orbits/propagate/propagate.py\<close>\<close>

text \<open>
  The theory embeds the one function of the module, \<open>propagateOrbits\<close>, together with
  the numpy and pandas operations it applies to its data. The function is a dispatcher:
  it converts the epochs, selects a backend, shifts the origin for the analytic backend
  and assembles a table. Its collaborators (\<open>_checkTime\<close>, \<open>_backendHandler\<close>,
  \<open>shiftOrbitsOrigin\<close>, \<open>propagateUniversal\<close>, \<open>propagateOrbitsPYOORB\<close> and astropy's
  time-scale conversions) live in other modules; they are parameters of the model,
  collected in the record \<open>env\<close>.

  Conventions.
  \<^item> A float64 is a \<open>real\<close>. The dispatcher moves floats around and does arithmetic on
    them in one place only, lines 98 and 99; there the float64 sum and difference are
    the real ones rounded to the nearest float64 (\<open>fl64\<close>). Infinities are not
    modelled, and NaN only as the fill value of a re-indexed table.
  \<^item> A two-dimensional array of shape (R, C) is the list of its R rows. An array with
    no rows carries no C, and every check on the number of columns passes on it.
  \<^item> A Python exception is a value of type \<open>error\<close>; a call that can raise returns
    \<open>error + 'a\<close>, with \<open>Inl\<close> for the exception.
  \<^item> The dictionary \<open>backend_kwargs\<close> is mutated in place by the source. The model
    returns its final content next to the result, also when the call raises.
  \<^item> Every call of a collaborator that computes on orbits or settings is appended to a
    log, so that "is invoked with" and "is not invoked" are statements about the log.
    The collaborators are functions of their arguments (the specification, section 5,
    takes the backends to be stateless), so that what a logged call returned is the
    function at the logged arguments.
  \<^item> The messages of numpy's and pandas' exceptions are abbreviated; those of the two
    ValueErrors the dispatcher raises itself are the source's.
\<close>

subsection \<open>Data\<close>

datatype error =
    TypeError string
  | KeyError string
  | ValueError string
  | IndexError string
  | AttributeError string
  | ScaleValueError string
  | BackendError string

text \<open>
  One instant of an astropy \<open>Time\<close>: a Modified Julian Date and the name of the scale
  it is expressed in, as in \<open>Time(v, scale="tdb", format="mjd")\<close> (line 74).
\<close>

datatype epoch = MJD string real

text \<open>What a caller may pass for \<open>t0\<close> and \<open>t1\<close>: a \<open>Time\<close> array that astropy converts
  to the scales TT and TDB, given by its instants; a \<open>Time\<close> array on which the
  conversion \<open>.tdb\<close> raises the given exception (astropy raises ScaleValueError for a
  \<open>Time\<close> in the scale \<open>local\<close>); or anything else.\<close>

datatype timearg = Time "epoch list" | UnconvertibleTime error | NotTime

text \<open>Values of the settings dictionary.\<close>

datatype pyval = Str string | Num real | Truth bool | NoneVal

type_synonym kwargs = "string \<rightharpoonup> pyval"

type_synonym ndarray = "real list list"

text \<open>A pandas column is its dtype and its values; a DataFrame is the length of its index
  and its columns in order. The values of an int64 column lie between \<open>-2^63\<close> and
  \<open>2^63 - 1\<close>. \<open>NaNs n\<close> is the float64 column of \<open>n\<close> NaN.\<close>

datatype column = Int64 "int list" | Float64 "real list" | NaNs nat

record dataframe =
  nrows :: nat
  cols :: "(string \<times> column) list"

text \<open>The log of collaborator calls, each with the arguments it was given.\<close>

datatype call =
    HandlerCall string string
  | ShiftCall ndarray "epoch list" string string
  | UniversalCall ndarray "real list" "real list" kwargs
  | PyoorbCall ndarray "real list" "real list" kwargs

text \<open>
  The collaborators, none of them under the source tree at hand:
  \<open>tdb_mjd t\<close> is \<open>t.tdb.mjd\<close> and \<open>tt_mjd t\<close> is \<open>t.tt.mjd\<close> (astropy);
  \<open>backendHandler\<close> is \<open>_backendHandler\<close>; the other three carry their Python names.
  \<open>propagateUniversal\<close> and \<open>propagateOrbitsPYOORB\<close> receive the dictionary as
  keyword arguments, that is a copy: they cannot change the caller's dictionary.
\<close>

record env =
  tdb_mjd :: "epoch \<Rightarrow> real"
  tt_mjd :: "epoch \<Rightarrow> real"
  backendHandler :: "string \<Rightarrow> string \<Rightarrow> error + kwargs"
  shiftOrbitsOrigin :: "ndarray \<Rightarrow> epoch list \<Rightarrow> string \<Rightarrow> string \<Rightarrow> error + ndarray"
  propagateUniversal :: "ndarray \<Rightarrow> real list \<Rightarrow> real list \<Rightarrow> kwargs \<Rightarrow> error + ndarray"
  propagateOrbitsPYOORB :: "ndarray \<Rightarrow> real list \<Rightarrow> real list \<Rightarrow> kwargs \<Rightarrow> error + dataframe"

text \<open>What a call leaves behind: the final content of the dictionary that
  \<open>backend_kwargs\<close> names (\<open>None\<close> when there never was one), the log, and the
  returned table or the exception.\<close>

record outcome =
  kwargs_after :: "kwargs option"
  calls :: "call list"
  result :: "error + dataframe"

subsection \<open>numpy and pandas operations used by the dispatcher\<close>

text \<open>\<open>a[:, 1]\<close>: IndexError when the array has fewer than two columns.\<close>

definition column1 :: "ndarray \<Rightarrow> error + real list" where
  "column1 a =
     (if \<forall>r \<in> set a. 2 \<le> length r then Inr (map (\<lambda>r. r ! 1) a)
      else Inl (IndexError ''index 1 is out of bounds for axis 1''))"

text \<open>numpy broadcasting along one axis: a value of length 1 is repeated.\<close>

definition broadcast_to :: "nat \<Rightarrow> 'a list \<Rightarrow> 'a list option" where
  "broadcast_to n xs =
     (if length xs = n then Some xs
      else if length xs = 1 then Some (replicate n (hd xs))
      else None)"

text \<open>\<open>a[:, 2:] = v\<close>: the first two entries of every row stay, the others are
  replaced by the row of \<open>v\<close>, broadcast to the shape of \<open>a[:, 2:]\<close>.\<close>

definition assign_row :: "real list \<Rightarrow> real list \<Rightarrow> real list option" where
  "assign_row r s = map_option (\<lambda>s'. take 2 r @ s') (broadcast_to (length r - 2) s)"

definition assign_from_column2 :: "ndarray \<Rightarrow> ndarray \<Rightarrow> error + ndarray" where
  "assign_from_column2 a v =
     (case broadcast_to (length a) v of
        None \<Rightarrow> Inl (ValueError ''could not broadcast input array'')
      | Some v' \<Rightarrow>
          (case those (map2 assign_row a v') of
             None \<Rightarrow> Inl (ValueError ''could not broadcast input array'')
           | Some a' \<Rightarrow> Inr a'))"

text \<open>\<open>np.concatenate\<close> of a list of one-dimensional arrays; it raises on the empty list.\<close>

definition concatenate :: "real list list \<Rightarrow> error + real list" where
  "concatenate xss =
     (if xss = [] then Inl (ValueError ''need at least one array to concatenate'')
      else Inr (concat xss))"

text \<open>\<open>pd.DataFrame(a, columns=names)\<close> on a float array: one float64 column per name.\<close>

definition DataFrame :: "ndarray \<Rightarrow> string list \<Rightarrow> error + dataframe" where
  "DataFrame a names =
     (if \<forall>r \<in> set a. length r = length names
      then Inr \<lparr>nrows = length a,
                cols = map (\<lambda>(j, n). (n, Float64 (map (\<lambda>r. r ! j) a))) (enumerate 0 names)\<rparr>
      else Inl (ValueError ''Shape of passed values does not match the columns''))"

fun column_length :: "column \<Rightarrow> nat" where
  "column_length (Int64 xs) = length xs"
| "column_length (Float64 xs) = length xs"
| "column_length (NaNs n) = n"

text \<open>\<open>df[name]\<close> and \<open>df[name] = c\<close>. Setting an existing name replaces the column in
  place, a new name is appended, and a column of another length than the index is a
  ValueError. Before that, a frame with no rows that is given a column with entries is
  re-indexed to the length of that column: every column it had becomes a float64 column
  of NaN.\<close>

definition reindex_empty :: "nat \<Rightarrow> dataframe \<Rightarrow> dataframe" where
  "reindex_empty n df = df\<lparr>nrows := n, cols := map (\<lambda>(name, c). (name, NaNs n)) (cols df)\<rparr>"

definition getitem :: "dataframe \<Rightarrow> string \<Rightarrow> error + column" where
  "getitem df name =
     (case map_of (cols df) name of None \<Rightarrow> Inl (KeyError name) | Some c \<Rightarrow> Inr c)"

definition setitem :: "dataframe \<Rightarrow> string \<Rightarrow> column \<Rightarrow> error + dataframe" where
  "setitem df name c =
     (let df' = (if nrows df = 0 \<and> 0 < column_length c
                 then reindex_empty (column_length c) df else df)
      in if column_length c \<noteq> nrows df'
         then Inl (ValueError ''Length of values does not match length of index'')
         else Inr (df'\<lparr>cols :=
                (if name \<in> set (map fst (cols df'))
                 then map (\<lambda>(n, old). if n = name then (n, c) else (n, old)) (cols df')
                 else cols df' @ [(name, c)])\<rparr>))"

text \<open>\<open>df.rename(columns={old: new}, inplace=True)\<close>; a missing name is ignored.\<close>

definition rename :: "dataframe \<Rightarrow> string \<Rightarrow> string \<Rightarrow> dataframe" where
  "rename df old new = df\<lparr>cols := map (\<lambda>(n, c). (if n = old then new else n, c)) (cols df)\<rparr>"

text \<open>\<open>.astype(int)\<close>, the cast from float64 to int64: a float is truncated towards zero;
  a float whose truncation is not an int64, and NaN, become \<open>-2^63\<close>.\<close>

definition float_to_int :: "real \<Rightarrow> int" where
  "float_to_int x =
     (let n = (if 0 \<le> x then \<lfloor>x\<rfloor> else \<lceil>x\<rceil>)
      in if - (2 ^ 63) \<le> n \<and> n < 2 ^ 63 then n else - (2 ^ 63))"

fun astype_int :: "column \<Rightarrow> column" where
  "astype_int (Int64 xs) = Int64 xs"
| "astype_int (Float64 xs) = Int64 (map float_to_int xs)"
| "astype_int (NaNs n) = Int64 (replicate n (- (2 ^ 63)))"

text \<open>float64 arithmetic. A sum or difference of two float64 is the real result rounded
  to the nearest float64, a tie going to the even significand. A float64 has a
  significand of 53 bits; the unit in its last place is \<open>2\<close> to the power
  \<open>ulp_exponent\<close>, which is at least \<open>-1074\<close> (the subnormal numbers). Overflow to
  infinity, for results of magnitude \<open>2^1024\<close> and more, is not modelled.\<close>

definition round_half_even :: "real \<Rightarrow> int" where
  "round_half_even y =
     (let f = \<lfloor>y\<rfloor>; d = y - of_int f
      in if d < 1 / 2 then f else if 1 / 2 < d then f + 1 else if even f then f else f + 1)"

definition ulp_exponent :: "real \<Rightarrow> int" where
  "ulp_exponent x = max (\<lfloor>log 2 \<bar>x\<bar>\<rfloor> - 52) (- 1074)"

definition fl64 :: "real \<Rightarrow> real" where
  "fl64 x =
     (if x = 0 then 0
      else of_int (round_half_even (x / 2 powi ulp_exponent x)) * 2 powi ulp_exponent x)"

text \<open>The float64 values are the reals that rounding leaves as they are.\<close>

definition is_float64 :: "real \<Rightarrow> bool" where
  "is_float64 x \<longleftrightarrow> fl64 x = x"

subsection \<open>The dispatcher\<close>

text \<open>Modelled from the spec: \<open>_checkTime\<close> (\<open>thor/utils\<close>) is not under the source tree.
  Section 4.3, VALIDATE: \<open>t0\<close> and \<open>t1\<close> must be well-formed time collections; the call
  fails with \<open>InvalidTimeInput\<close> otherwise. Every \<open>Time\<close> object passes, whatever its
  scale; the exception carries the argument's name. \<open>None\<close> is the check passed.\<close>

definition checkTime :: "timearg \<Rightarrow> string \<Rightarrow> error option" where
  "checkTime t name = (case t of NotTime \<Rightarrow> Some (TypeError name) | _ \<Rightarrow> None)"

text \<open>\<open>t.tdb\<close> of lines 47 and 48: the instants of a \<open>Time\<close> that converts, or the
  exception of the conversion. An object that is no \<open>Time\<close> has no such attribute.\<close>

definition tdb :: "timearg \<Rightarrow> error + epoch list" where
  "tdb t =
     (case t of
        Time es \<Rightarrow> Inr es
      | UnconvertibleTime e \<Rightarrow> Inl e
      | NotTime \<Rightarrow> Inl (AttributeError ''tdb''))"

text \<open>The messages of the two ValueErrors the function raises itself (lines 66 to 69
  and 110 to 113); the second ends in a quotation mark.\<close>

definition origin_message :: string where
  "origin_message = ''origin should be one of {'heliocenter', 'barycenter'}''"

definition backend_message :: string where
  "backend_message = ''backend should be one of 'THOR' or 'PYOORB'' @ [CHR 0x27]"

definition canonical_columns :: "string list" where
  "canonical_columns =
     [''orbit_id'', ''epoch_mjd_tdb'', ''x'', ''y'', ''z'', ''vx'', ''vy'', ''vz'']"

text \<open>Lines 79 to 94: the origin is put back into the dictionary, the array becomes a
  DataFrame and the identifier column is cast to int.\<close>

definition assemble :: "kwargs \<Rightarrow> pyval \<Rightarrow> call list \<Rightarrow> ndarray \<Rightarrow> outcome" where
  "assemble kw origin cs propagated =
     (let kw' = kw(''origin'' \<mapsto> origin) in
      case DataFrame propagated canonical_columns of
        Inl e \<Rightarrow> \<lparr>kwargs_after = Some kw', calls = cs, result = Inl e\<rparr>
      | Inr df \<Rightarrow>
          (case getitem df ''orbit_id'' of
             Inl e \<Rightarrow> \<lparr>kwargs_after = Some kw', calls = cs, result = Inl e\<rparr>
           | Inr c \<Rightarrow>
               \<lparr>kwargs_after = Some kw', calls = cs,
                result = setitem df ''orbit_id'' (astype_int c)\<rparr>))"

text \<open>Lines 71 to 77: the analytic backend is called with the dictionary that no longer
  holds the origin; for the barycenter the state columns of what it returns are shifted
  back, at the epochs read from column 1 of the returned rows.\<close>

definition propagate_and_shift_back ::
  "env \<Rightarrow> kwargs \<Rightarrow> pyval \<Rightarrow> call list \<Rightarrow> ndarray \<Rightarrow> real list \<Rightarrow> real list \<Rightarrow> outcome" where
  "propagate_and_shift_back env kw origin cs orbits' t0_tdb t1_tdb =
     (let cs1 = cs @ [UniversalCall orbits' t0_tdb t1_tdb kw] in
      case propagateUniversal env orbits' t0_tdb t1_tdb kw of
        Inl e \<Rightarrow> \<lparr>kwargs_after = Some kw, calls = cs1, result = Inl e\<rparr>
      | Inr propagated \<Rightarrow>
          if origin = Str ''barycenter'' then
            (case column1 propagated of
               Inl e \<Rightarrow> \<lparr>kwargs_after = Some kw, calls = cs1, result = Inl e\<rparr>
             | Inr c1 \<Rightarrow>
                 let t1_tdb_stacked = map (MJD ''tdb'') c1;
                     cs2 = cs1 @ [ShiftCall (map (drop 2) propagated) t1_tdb_stacked
                                    ''barycenter'' ''heliocenter'']
                 in
                 (case shiftOrbitsOrigin env (map (drop 2) propagated) t1_tdb_stacked
                         ''barycenter'' ''heliocenter'' of
                    Inl e \<Rightarrow> \<lparr>kwargs_after = Some kw, calls = cs2, result = Inl e\<rparr>
                  | Inr shifted \<Rightarrow>
                      (case assign_from_column2 propagated shifted of
                         Inl e \<Rightarrow> \<lparr>kwargs_after = Some kw, calls = cs2, result = Inl e\<rparr>
                       | Inr propagated' \<Rightarrow> assemble kw origin cs2 propagated')))
          else assemble kw origin cs1 propagated)"

text \<open>Lines 54 to 94, the branch \<open>backend == "THOR"\<close>. \<open>pop\<close> raises KeyError on a
  dictionary without the key and removes the key otherwise.\<close>

definition propagateTHOR ::
  "env \<Rightarrow> kwargs \<Rightarrow> call list \<Rightarrow> ndarray \<Rightarrow> epoch list \<Rightarrow> real list \<Rightarrow> real list \<Rightarrow> outcome" where
  "propagateTHOR env kw cs orbits t0 t0_tdb t1_tdb =
     (case kw ''origin'' of
        None \<Rightarrow> \<lparr>kwargs_after = Some kw, calls = cs, result = Inl (KeyError ''origin'')\<rparr>
      | Some origin \<Rightarrow>
          let kw1 = kw(''origin'' := None) in
          if origin = Str ''barycenter'' then
            (let cs1 = cs @ [ShiftCall orbits t0 ''heliocenter'' ''barycenter''] in
             case shiftOrbitsOrigin env orbits t0 ''heliocenter'' ''barycenter'' of
               Inl e \<Rightarrow> \<lparr>kwargs_after = Some kw1, calls = cs1, result = Inl e\<rparr>
             | Inr orbits' \<Rightarrow> propagate_and_shift_back env kw1 origin cs1 orbits' t0_tdb t1_tdb)
          else if origin = Str ''heliocenter'' then
            propagate_and_shift_back env kw1 origin cs orbits t0_tdb t1_tdb
          else
            \<lparr>kwargs_after = Some kw1, calls = cs,
             result = Inl (ValueError origin_message)\<rparr>)"

text \<open>Lines 98 and 99: the epoch handed to PYOORB, for one instant, in float64
  arithmetic.\<close>

definition corrected_tt :: "env \<Rightarrow> epoch \<Rightarrow> real" where
  "corrected_tt env t = fl64 (tt_mjd env t + fl64 (tdb_mjd env t - tt_mjd env t))"

text \<open>Lines 97 to 107, the branch \<open>backend == "PYOORB"\<close>.\<close>

definition propagatePYOORB ::
  "env \<Rightarrow> kwargs \<Rightarrow> call list \<Rightarrow> ndarray \<Rightarrow> epoch list \<Rightarrow> epoch list \<Rightarrow> real list \<Rightarrow> outcome" where
  "propagatePYOORB env kw cs orbits t0 t1 t1_tdb =
     (let t0_tt = map (corrected_tt env) t0;
          t1_tt = map (corrected_tt env) t1;
          kw1 = kw(''time_scale'' \<mapsto> Str ''TT'');
          cs1 = cs @ [PyoorbCall orbits t0_tt t1_tt kw1]
      in
      case propagateOrbitsPYOORB env orbits t0_tt t1_tt kw1 of
        Inl e \<Rightarrow> \<lparr>kwargs_after = Some kw1, calls = cs1, result = Inl e\<rparr>
      | Inr propagated \<Rightarrow>
          (case concatenate (map (\<lambda>i. t1_tdb) [0..<length orbits]) of
             Inl e \<Rightarrow> \<lparr>kwargs_after = Some kw1, calls = cs1, result = Inl e\<rparr>
           | Inr epoch_mjd_tdb \<Rightarrow>
               \<lparr>kwargs_after = Some kw1, calls = cs1,
                result = setitem (rename propagated ''epoch_mjd'' ''epoch_mjd_tdb'')
                           ''epoch_mjd_tdb'' (Float64 epoch_mjd_tdb)\<rparr>))"

text \<open>Lines 53 to 113: the choice of the backend.\<close>

definition select_backend ::
  "env \<Rightarrow> string \<Rightarrow> kwargs \<Rightarrow> call list \<Rightarrow> ndarray \<Rightarrow> epoch list \<Rightarrow> epoch list \<Rightarrow>
   real list \<Rightarrow> real list \<Rightarrow> outcome" where
  "select_backend env backend kw cs orbits t0 t1 t0_tdb t1_tdb =
     (if backend = ''THOR'' then propagateTHOR env kw cs orbits t0 t0_tdb t1_tdb
      else if backend = ''PYOORB'' then propagatePYOORB env kw cs orbits t0 t1 t1_tdb
      else \<lparr>kwargs_after = Some kw, calls = cs,
            result = Inl (ValueError backend_message)\<rparr>)"

text \<open>The whole function (lines 15 to 115): the two checks of the time arguments, the
  conversion of both to TDB Modified Julian Dates (lines 47 and 48), which raises what
  astropy raises, the defaults of \<open>_backendHandler\<close> when the caller passed no dictionary
  (lines 50 and 51), and the branch.\<close>

definition propagateOrbits ::
  "env \<Rightarrow> ndarray \<Rightarrow> timearg \<Rightarrow> timearg \<Rightarrow> string \<Rightarrow> kwargs option \<Rightarrow> outcome" where
  "propagateOrbits env orbits t0 t1 backend backend_kwargs =
     (case checkTime t0 ''t0'' of
        Some e \<Rightarrow> \<lparr>kwargs_after = backend_kwargs, calls = [], result = Inl e\<rparr>
      | None \<Rightarrow>
     (case checkTime t1 ''t1'' of
        Some e \<Rightarrow> \<lparr>kwargs_after = backend_kwargs, calls = [], result = Inl e\<rparr>
      | None \<Rightarrow>
     (case tdb t0 of
        Inl e \<Rightarrow> \<lparr>kwargs_after = backend_kwargs, calls = [], result = Inl e\<rparr>
      | Inr t0' \<Rightarrow>
     (case tdb t1 of
        Inl e \<Rightarrow> \<lparr>kwargs_after = backend_kwargs, calls = [], result = Inl e\<rparr>
      | Inr t1' \<Rightarrow>
          let t0_tdb = map (tdb_mjd env) t0';
              t1_tdb = map (tdb_mjd env) t1'
          in
          (case backend_kwargs of
             None \<Rightarrow>
               (case backendHandler env backend ''propagate'' of
                  Inl e \<Rightarrow> \<lparr>kwargs_after = None,
                            calls = [HandlerCall backend ''propagate''], result = Inl e\<rparr>
                | Inr kw \<Rightarrow>
                    select_backend env backend kw [HandlerCall backend ''propagate'']
                      orbits t0' t1' t0_tdb t1_tdb)
           | Some kw \<Rightarrow> select_backend env backend kw [] orbits t0' t1' t0_tdb t1_tdb)))))"

section \<open>Vocabulary of the properties\<close>

subsection \<open>Reading the log and the table\<close>

text \<open>The keyword arguments of the calls of the analytic backend, in the order of the log.\<close>

fun universal_kwargs :: "call list \<Rightarrow> kwargs list" where
  "universal_kwargs [] = []"
| "universal_kwargs (UniversalCall _ _ _ k # cs) = k # universal_kwargs cs"
| "universal_kwargs (_ # cs) = universal_kwargs cs"



definition state_names :: "string list" where
  "state_names = [''x'', ''y'', ''z'', ''vx'', ''vy'', ''vz'']"

text \<open>The six state columns of a table, and the columns \<open>js\<close> of an array as float64
  columns.\<close>

definition state_columns :: "dataframe \<Rightarrow> column option list" where
  "state_columns df = map (map_of (cols df)) state_names"

definition array_columns :: "nat list \<Rightarrow> ndarray \<Rightarrow> column option list" where
  "array_columns js a = map (\<lambda>j. Some (Float64 (map (\<lambda>r. r ! j) a))) js"

text \<open>The table that lines 81 to 94 build from an array of eight columns.\<close>

definition canonical_frame :: "ndarray \<Rightarrow> dataframe" where
  "canonical_frame a =
     \<lparr>nrows = length a,
      cols = [(''orbit_id'', Int64 (map (\<lambda>r. float_to_int (r ! 0)) a)),
              (''epoch_mjd_tdb'', Float64 (map (\<lambda>r. r ! 1) a)),
              (''x'', Float64 (map (\<lambda>r. r ! 2) a)),
              (''y'', Float64 (map (\<lambda>r. r ! 3) a)),
              (''z'', Float64 (map (\<lambda>r. r ! 4) a)),
              (''vx'', Float64 (map (\<lambda>r. r ! 5) a)),
              (''vy'', Float64 (map (\<lambda>r. r ! 6) a)),
              (''vz'', Float64 (map (\<lambda>r. r ! 7) a))]\<rparr>"






text \<open>The epochs for which the float64 sum of lines 98 and 99 is exact: both Modified
  Julian Dates are float64 values, of one sign, and neither is more than twice the
  other.\<close>

definition within_factor_two :: "real \<Rightarrow> real \<Rightarrow> bool" where
  "within_factor_two a b \<longleftrightarrow> (b / 2 \<le> a \<and> a \<le> 2 * b) \<or> (2 * b \<le> a \<and> a \<le> b / 2)"

definition exact_fold :: "env \<Rightarrow> epoch \<Rightarrow> bool" where
  "exact_fold env t \<longleftrightarrow>
     is_float64 (tt_mjd env t) \<and> is_float64 (tdb_mjd env t)
     \<and> within_factor_two (tt_mjd env t) (tdb_mjd env t)"

subsection \<open>The specification's side of the refinement\<close>

text \<open>A direct propagation: the analytic backend on the given orbits, with the epochs
  converted to TDB and no origin shift (specification, section 8).\<close>

definition direct_propagation ::
  "env \<Rightarrow> ndarray \<Rightarrow> epoch list \<Rightarrow> epoch list \<Rightarrow> kwargs \<Rightarrow> error + ndarray" where
  "direct_propagation env orbits t0 t1 kw =
     propagateUniversal env orbits (map (tdb_mjd env) t0) (map (tdb_mjd env) t1) kw"

subsection \<open>The interfaces of the two backends\<close>

text \<open>Modelled from the spec: \<open>propagateUniversal\<close> (\<open>thor/orbits/propagate/universal.py\<close>)
  is not under the source tree. Section 4.4: it returns \<open>rows[N*M, 8]\<close>, each row
  \<open>[orbit_id, epoch_tdb_mjd, x, y, z, vx, vy, vz]\<close>, one per (orbit, target epoch);
  section 6: orbit-major, then in the order of \<open>t1\<close>. \<open>ids\<close> are the identifiers of
  the N input orbits, in the order of the input rows.\<close>

definition universal_layout :: "int list \<Rightarrow> real list \<Rightarrow> ndarray \<Rightarrow> bool" where
  "universal_layout ids t1 rows \<longleftrightarrow>
     (\<forall>r \<in> set rows. length r = 8)
     \<and> map (take 2) rows = concat (map (\<lambda>i. map (\<lambda>t. [of_int i, t]) t1) ids)"

text \<open>A logged call of the analytic backend answered as that interface prescribes (a call
  that raised, and a call of another collaborator, are not constrained).\<close>

fun universal_contract :: "env \<Rightarrow> int list \<Rightarrow> call \<Rightarrow> bool" where
  "universal_contract env ids (UniversalCall orbits t0 t1 kw) =
     (case propagateUniversal env orbits t0 t1 kw of
        Inl e \<Rightarrow> True
      | Inr rows \<Rightarrow> universal_layout ids t1 rows)"
| "universal_contract env ids c = True"



subsection \<open>A sample environment\<close>

text \<open>Simple collaborators on which the model runs to a value: the conversions add a
  constant, the origin shift moves every component by the epoch's distance from MJD 59000,
  and the backends carry the states along unchanged, numbering the orbits from 0. They are
  instances of the interfaces, not astronomy. The sample PYOORB returns the identifiers
  in a column \<open>orbit_id\<close> next to the epoch and the six state columns.\<close>

definition sample_tdb :: "epoch \<Rightarrow> real" where
  "sample_tdb t = (case t of MJD s v \<Rightarrow> if s = ''tdb'' then v else v + 1 / 4)"

definition sample_tt :: "epoch \<Rightarrow> real" where
  "sample_tt t = (case t of MJD s v \<Rightarrow> if s = ''tdb'' then v - 1 / 4 else v)"

text \<open>Modelled from the spec: \<open>_backendHandler\<close> (\<open>thor/orbits/handler\<close>) is not under the
  source tree. Section 9: the default settings are reached by a lookup keyed by the
  backend's name. The sample is such a lookup in a table of two entries; a name that is
  not in the table is a KeyError.\<close>

definition sample_handler :: "string \<Rightarrow> string \<Rightarrow> error + kwargs" where
  "sample_handler backend purpose =
     (case map_of [(''THOR'', [''origin'' \<mapsto> Str ''heliocenter'']), (''PYOORB'', Map.empty)]
             backend of
        None \<Rightarrow> Inl (KeyError backend)
      | Some kw \<Rightarrow> Inr kw)"

definition sample_shift :: "ndarray \<Rightarrow> epoch list \<Rightarrow> string \<Rightarrow> string \<Rightarrow> error + ndarray" where
  "sample_shift a es origin_in origin_out =
     Inr (map2 (\<lambda>r e. map (\<lambda>x. x + (if origin_out = ''barycenter'' then 1 else - 1)
                                  * (case e of MJD s v \<Rightarrow> v - 59000)) r) a es)"

definition sample_universal :: "ndarray \<Rightarrow> real list \<Rightarrow> real list \<Rightarrow> kwargs \<Rightarrow> error + ndarray" where
  "sample_universal orbits t0 t1 kw =
     Inr (concat (map (\<lambda>(i, r). map (\<lambda>t. [of_nat i, t] @ r) t1) (enumerate 0 orbits)))"

definition sample_pyoorb :: "ndarray \<Rightarrow> real list \<Rightarrow> real list \<Rightarrow> kwargs \<Rightarrow> error + dataframe" where
  "sample_pyoorb orbits t0 t1 kw =
     Inr \<lparr>nrows = length orbits * length t1,
          cols = (''orbit_id'', Int64 (concat (map (\<lambda>(i, r). replicate (length t1) (int i))
                                               (enumerate 0 orbits))))
               # (''epoch_mjd'', Float64 (concat (map (\<lambda>r. t1) orbits)))
               # map (\<lambda>(j, n). (n, Float64 (concat (map (\<lambda>r. replicate (length t1) (r ! j)) orbits))))
                   (enumerate 0 state_names)\<rparr>"

definition sample_env :: env where
  "sample_env =
     \<lparr>tdb_mjd = sample_tdb, tt_mjd = sample_tt, backendHandler = sample_handler,
      shiftOrbitsOrigin = sample_shift, propagateUniversal = sample_universal,
      propagateOrbitsPYOORB = sample_pyoorb\<rparr>"

text \<open>Two orbits defined at one epoch and two target epochs.\<close>

definition sample_orbits :: ndarray where
  "sample_orbits = [[1, 0, 0, 0, 1, 0], [2, 0, 0, 0, 3, 0]]"

definition sample_t0 :: "epoch list" where
  "sample_t0 = [MJD ''utc'' 59001, MJD ''utc'' 59001]"

definition sample_t1 :: "epoch list" where
  "sample_t1 = [MJD ''utc'' 59002, MJD ''utc'' 59003]"

text \<open>The rows the sample backend returns for the sample orbits as they are, and for the
  sample orbits shifted to the barycenter; the latter shifted back; and the table of the
  sample PYOORB run.\<close>

definition sample_rows :: ndarray where
  "sample_rows =
     [[0, 59002 + 1 / 4, 1, 0, 0, 0, 1, 0], [0, 59003 + 1 / 4, 1, 0, 0, 0, 1, 0],
      [1, 59002 + 1 / 4, 2, 0, 0, 0, 3, 0], [1, 59003 + 1 / 4, 2, 0, 0, 0, 3, 0]]"

definition sample_barycentric_rows :: ndarray where
  "sample_barycentric_rows =
     [[0, 59002 + 1 / 4, 2, 1, 1, 1, 2, 1], [0, 59003 + 1 / 4, 2, 1, 1, 1, 2, 1],
      [1, 59002 + 1 / 4, 3, 1, 1, 1, 4, 1], [1, 59003 + 1 / 4, 3, 1, 1, 1, 4, 1]]"

definition sample_shifted_rows :: ndarray where
  "sample_shifted_rows =
     [[0, 59002 + 1 / 4, - (1 / 4), - (5 / 4), - (5 / 4), - (5 / 4), - (1 / 4), - (5 / 4)],
      [0, 59003 + 1 / 4, - (5 / 4), - (9 / 4), - (9 / 4), - (9 / 4), - (5 / 4), - (9 / 4)],
      [1, 59002 + 1 / 4, 3 / 4, - (5 / 4), - (5 / 4), - (5 / 4), 7 / 4, - (5 / 4)],
      [1, 59003 + 1 / 4, - (1 / 4), - (9 / 4), - (9 / 4), - (9 / 4), 3 / 4, - (9 / 4)]]"

definition sample_table :: dataframe where
  "sample_table =
     \<lparr>nrows = 4,
      cols = [(''orbit_id'', Int64 [0, 0, 1, 1]),
              (''epoch_mjd_tdb'',
               Float64 [59002 + 1 / 4, 59003 + 1 / 4, 59002 + 1 / 4, 59003 + 1 / 4]),
              (''x'', Float64 [1, 1, 2, 2]), (''y'', Float64 [0, 0, 0, 0]),
              (''z'', Float64 [0, 0, 0, 0]), (''vx'', Float64 [0, 0, 0, 0]),
              (''vy'', Float64 [1, 1, 3, 3]), (''vz'', Float64 [0, 0, 0, 0])]\<rparr>"







text \<open>Conversions for an instant about a millisecond after MJD 0 in TT, where TDB is still
  before MJD 0: both Modified Julian Dates are float64 values of opposite sign.\<close>

definition near_zero_env :: env where
  "near_zero_env =
     sample_env\<lparr>tt_mjd := (\<lambda>t. 1 / 2 ^ 26), tdb_mjd := (\<lambda>t. - (1 / 2 ^ 28 + 1 / 2 ^ 80))\<rparr>"

section \<open>Lemmas\<close>

subsection \<open>float64\<close>

lemma round_half_even_of_int [simp]: "round_half_even (of_int n) = n"
  by (simp add: round_half_even_def)

lemma two_powr_int:
  "(2::real) powr real_of_int k = 2 powi k" "(2::real) powr (real_of_int k + 1) = 2 powi (k + 1)"
  using powr_real_of_int' [of "2::real" k] powr_real_of_int' [of "2::real" "k + 1"]
  by simp_all

lemma floor_log2_bounds:
  assumes "x \<noteq> 0"
  shows "2 powi \<lfloor>log 2 \<bar>x\<bar>\<rfloor> \<le> \<bar>x\<bar>" and "\<bar>x\<bar> < 2 powi (\<lfloor>log 2 \<bar>x\<bar>\<rfloor> + 1)"
proof -
  have pos: "0 < \<bar>x\<bar>" using assms by simp
  have "2 powr real_of_int \<lfloor>log 2 \<bar>x\<bar>\<rfloor> \<le> \<bar>x\<bar> \<and> \<bar>x\<bar> < 2 powr (real_of_int \<lfloor>log 2 \<bar>x\<bar>\<rfloor> + 1)"
    using floor_log_eq_powr_iff [OF pos, of 2 "\<lfloor>log 2 \<bar>x\<bar>\<rfloor>"] by simp
  then show "2 powi \<lfloor>log 2 \<bar>x\<bar>\<rfloor> \<le> \<bar>x\<bar>" and "\<bar>x\<bar> < 2 powi (\<lfloor>log 2 \<bar>x\<bar>\<rfloor> + 1)"
    by (simp_all only: two_powr_int)
qed

lemma floor_log2_eq:
  assumes "2 powi k \<le> \<bar>x\<bar>" and "\<bar>x\<bar> < 2 powi (k + 1)"
  shows "\<lfloor>log 2 \<bar>x\<bar>\<rfloor> = k"
proof -
  have "(0::real) < 2 powi k"
    by simp
  then have pos: "0 < \<bar>x\<bar>"
    using assms(1) by linarith
  have "2 powr real_of_int k \<le> \<bar>x\<bar> \<and> \<bar>x\<bar> < 2 powr (real_of_int k + 1)"
    using assms by (simp only: two_powr_int)
  then show ?thesis
    using floor_log_eq_powr_iff [OF pos, of 2 k] by simp
qed

lemma powi_less_cancel:
  assumes "(2::real) powi a < 2 powi b"
  shows "a < b"
proof (rule ccontr)
  assume "\<not> a < b"
  then have "b \<le> a" by simp
  then have "(2::real) powi b \<le> 2 powi a"
    by (intro power_int_increasing) simp_all
  with assms show False by simp
qed

lemma of_int_powi_split:
  assumes "e' \<le> e"
  shows "of_int m * (2::real) powi e = of_int (m * 2 ^ nat (e - e')) * 2 powi e'"
proof -
  have "(2::real) powi e = 2 powi (e - e') * 2 powi e'"
    by (simp add: power_int_add [symmetric])
  also have "(2::real) powi (e - e') = 2 ^ nat (e - e')"
    using assms by (simp add: power_int_def)
  finally show ?thesis by simp
qed

lemma float64I:
  assumes m: "\<bar>m\<bar> < 2 ^ 53" and e: "- 1074 \<le> e"
  shows "is_float64 (of_int m * 2 powi e)"
proof (cases "m = 0")
  case True
  then show ?thesis by (simp add: is_float64_def fl64_def)
next
  case False
  let ?x = "of_int m * (2::real) powi e"
  have x0: "?x \<noteq> 0" using False by simp
  let ?k = "\<lfloor>log 2 \<bar>?x\<bar>\<rfloor>"
  have "\<bar>?x\<bar> = of_int \<bar>m\<bar> * 2 powi e"
    by (simp add: abs_mult)
  also have "\<dots> < 2 ^ 53 * 2 powi e"
  proof -
    have "(of_int \<bar>m\<bar> :: real) < of_int (2 ^ 53)"
      using m by (simp only: of_int_less_iff)
    then show ?thesis by simp
  qed
  also have "\<dots> = 2 powi (53 + e)"
    by (simp add: power_int_add)
  finally have "\<bar>?x\<bar> < 2 powi (53 + e)" .
  with floor_log2_bounds(1) [OF x0] have "(2::real) powi ?k < 2 powi (53 + e)"
    by linarith
  then have "?k < 53 + e" by (rule powi_less_cancel)
  then have le: "ulp_exponent ?x \<le> e"
    using e by (simp add: ulp_exponent_def)
  have "?x = of_int (m * 2 ^ nat (e - ulp_exponent ?x)) * 2 powi ulp_exponent ?x"
    using of_int_powi_split [OF le] .
  then have "?x / 2 powi ulp_exponent ?x = of_int (m * 2 ^ nat (e - ulp_exponent ?x))"
    by (metis nonzero_mult_div_cancel_right power_int_not_zero zero_neq_numeral)
  then have "fl64 ?x = of_int (m * 2 ^ nat (e - ulp_exponent ?x)) * 2 powi ulp_exponent ?x"
    using x0 by (simp only: fl64_def round_half_even_of_int if_False)
  also have "\<dots> = ?x"
    by (rule of_int_powi_split [OF le, symmetric])
  finally show ?thesis by (simp add: is_float64_def)
qed

lemma float64E:
  assumes "is_float64 x"
  obtains m e where "\<bar>m\<bar> < 2 ^ 53" and "- 1074 \<le> e" and "x = of_int m * 2 powi e"
proof (cases "x = 0")
  case True
  show ?thesis
    by (rule that [of 0 0]) (simp_all add: True)
next
  case False
  let ?E = "ulp_exponent x"
  let ?n = "round_half_even (x / 2 powi ?E)"
  have x: "x = of_int ?n * 2 powi ?E"
    using assms False by (simp add: is_float64_def fl64_def)
  have "\<lfloor>log 2 \<bar>x\<bar>\<rfloor> + 1 \<le> ?E + 53"
    by (simp add: ulp_exponent_def)
  then have "(2::real) powi (\<lfloor>log 2 \<bar>x\<bar>\<rfloor> + 1) \<le> 2 powi (?E + 53)"
    by (intro power_int_increasing) simp_all
  with floor_log2_bounds(2) [OF False] have "\<bar>x\<bar> < 2 powi (?E + 53)"
    by linarith
  also have "\<dots> = 2 ^ 53 * 2 powi ?E"
    by (simp add: power_int_add)
  finally have "\<bar>of_int ?n * 2 powi ?E\<bar> < 2 ^ 53 * (2::real) powi ?E"
    using x by simp
  then have "\<bar>of_int ?n :: real\<bar> * 2 powi ?E < 2 ^ 53 * 2 powi ?E"
    by (simp add: abs_mult)
  then have "\<bar>of_int ?n :: real\<bar> < 2 ^ 53"
    by (simp add: mult_less_cancel_right)
  then have "(of_int \<bar>?n\<bar> :: real) < of_int (2 ^ 53)"
    by simp
  then have "\<bar>?n\<bar> < 2 ^ 53"
    by (simp only: of_int_less_iff)
  moreover have "- 1074 \<le> ?E"
    by (simp add: ulp_exponent_def)
  ultimately show ?thesis
    using x that by blast
qed

lemma sterbenz:
  assumes x: "is_float64 x" and y: "is_float64 y" and lo: "y / 2 \<le> x" and hi: "x \<le> 2 * y"
  shows "is_float64 (x - y)"
proof -
  obtain mx ex where mx: "\<bar>mx\<bar> < 2 ^ 53" "- 1074 \<le> ex" "x = of_int mx * 2 powi ex"
    using x by (rule float64E)
  obtain my ey where my: "\<bar>my\<bar> < 2 ^ 53" "- 1074 \<le> ey" "y = of_int my * 2 powi ey"
    using y by (rule float64E)
  define e where "e = min ex ey"
  define kx where "kx = mx * 2 ^ nat (ex - e)"
  define ky where "ky = my * 2 ^ nat (ey - e)"
  have xe: "x = of_int kx * 2 powi e"
    unfolding kx_def mx(3) by (rule of_int_powi_split) (simp add: e_def)
  have ye: "y = of_int ky * 2 powi e"
    unfolding ky_def my(3) by (rule of_int_powi_split) (simp add: e_def)
  have diff: "x - y = of_int (kx - ky) * 2 powi e"
    by (simp add: xe ye algebra_simps)
  have nonneg: "0 \<le> x" "0 \<le> y"
    using lo hi by linarith+
  have small: "\<bar>x - y\<bar> \<le> x" "\<bar>x - y\<bar> \<le> y"
    using lo hi by linarith+
  have bound: "\<bar>x - y\<bar> < 2 ^ 53 * 2 powi e"
  proof (cases "ex \<le> ey")
    case True
    then have "e = ex" by (simp add: e_def)
    have "x = \<bar>x\<bar>" using nonneg by simp
    also have "\<dots> = of_int \<bar>mx\<bar> * 2 powi ex"
      by (simp add: mx(3) abs_mult)
    also have "\<dots> < 2 ^ 53 * 2 powi ex"
    proof -
      have "(of_int \<bar>mx\<bar> :: real) < of_int (2 ^ 53)"
        using mx(1) by (simp only: of_int_less_iff)
      then show ?thesis by simp
    qed
    finally show ?thesis
      using small(1) \<open>e = ex\<close> by simp
  next
    case False
    then have "e = ey" by (simp add: e_def)
    have "y = \<bar>y\<bar>" using nonneg by simp
    also have "\<dots> = of_int \<bar>my\<bar> * 2 powi ey"
      by (simp add: my(3) abs_mult)
    also have "\<dots> < 2 ^ 53 * 2 powi ey"
    proof -
      have "(of_int \<bar>my\<bar> :: real) < of_int (2 ^ 53)"
        using my(1) by (simp only: of_int_less_iff)
      then show ?thesis by simp
    qed
    finally show ?thesis
      using small(2) \<open>e = ey\<close> by simp
  qed
  have "\<bar>of_int (kx - ky) :: real\<bar> * 2 powi e < 2 ^ 53 * 2 powi e"
    using bound by (simp add: diff abs_mult)
  then have "\<bar>of_int (kx - ky) :: real\<bar> < 2 ^ 53"
    by (simp add: mult_less_cancel_right)
  then have "(of_int \<bar>kx - ky\<bar> :: real) < of_int (2 ^ 53)"
    by simp
  then have "\<bar>kx - ky\<bar> < 2 ^ 53"
    by (simp only: of_int_less_iff)
  moreover have "- 1074 \<le> e"
    using mx(2) my(2) by (simp add: e_def)
  ultimately show ?thesis
    unfolding diff by (rule float64I)
qed

lemma float64_minus:
  assumes "is_float64 x"
  shows "is_float64 (- x)"
proof -
  obtain m e where me: "\<bar>m\<bar> < 2 ^ 53" "- 1074 \<le> e" "x = of_int m * 2 powi e"
    using assms by (rule float64E)
  have "is_float64 (of_int (- m) * 2 powi e)"
    by (rule float64I) (use me in simp_all)
  then show ?thesis
    by (simp add: me(3))
qed

text \<open>The float64 difference of two float64 of one sign, neither more than twice the
  other, is exact; hence adding it back gives the second of them exactly.\<close>

lemma exact_difference:
  assumes a: "is_float64 a" and b: "is_float64 b" and range: "within_factor_two a b"
  shows "is_float64 (b - a)"
proof -
  consider "b / 2 \<le> a" "a \<le> 2 * b" | "2 * b \<le> a" "a \<le> b / 2"
    using range by (auto simp add: within_factor_two_def)
  then show ?thesis
  proof cases
    case 1
    show ?thesis
      using b a by (rule sterbenz) (use 1 in linarith)+
  next
    case 2
    have "is_float64 (- b - - a)"
      using float64_minus [OF b] float64_minus [OF a] by (rule sterbenz) (use 2 in linarith)+
    then have "is_float64 (- (b - a))"
      by simp
    then show ?thesis
      using float64_minus by fastforce
  qed
qed

lemma fold_offset:
  assumes a: "is_float64 a" and b: "is_float64 b" and range: "within_factor_two a b"
  shows "fl64 (a + fl64 (b - a)) = b"
proof -
  have "fl64 (b - a) = b - a"
    using exact_difference [OF assms] by (simp add: is_float64_def)
  then show ?thesis
    using b by (simp add: is_float64_def)
qed

text \<open>Rounding at a known binade.\<close>

lemma fl64_at:
  assumes "x \<noteq> 0" and "2 powi k \<le> \<bar>x\<bar>" and "\<bar>x\<bar> < 2 powi (k + 1)" and "- 1022 \<le> k"
  shows "fl64 x = of_int (round_half_even (x / 2 powi (k - 52))) * 2 powi (k - 52)"
proof -
  have "ulp_exponent x = k - 52"
    using floor_log2_eq [OF assms(2,3)] assms(4) by (simp add: ulp_exponent_def)
  then show ?thesis
    using assms(1) by (simp add: fl64_def)
qed

subsection \<open>Arrays\<close>

lemma broadcast_length: "broadcast_to n xs = Some ys \<Longrightarrow> length ys = n"
  by (auto simp add: broadcast_to_def split: if_splits)

lemma those_assign_rows:
  assumes "length a = length v" and "map length v = map (\<lambda>r. length r - 2) a"
  shows "those (map2 assign_row a v) = Some (map2 (\<lambda>r s. take 2 r @ s) a v)"
  using assms
  by (induction a v rule: list_induct2) (simp_all add: assign_row_def broadcast_to_def)

lemma assign_same_shape:
  assumes "map length v = map (\<lambda>r. length r - 2) a"
  shows "assign_from_column2 a v = Inr (map2 (\<lambda>r s. take 2 r @ s) a v)"
proof -
  have len: "length a = length v"
    using assms by (metis length_map)
  then show ?thesis
    using assms by (simp add: assign_from_column2_def broadcast_to_def those_assign_rows)
qed

lemma those_assign_heads:
  assumes "length a = length v" and "those (map2 assign_row a v) = Some a'"
    and "\<forall>r \<in> set a. 2 \<le> length r"
  shows "map (take 2) a' = map (take 2) a"
  using assms
proof (induction a v arbitrary: a' rule: list_induct2)
  case Nil
  then show ?case by simp
next
  case (Cons r a s v)
  then show ?case
    by (auto simp add: assign_row_def split: option.splits)
qed

lemma assign_heads:
  assumes "assign_from_column2 a v = Inr a'" and "\<forall>r \<in> set a. 2 \<le> length r"
  shows "map (take 2) a' = map (take 2) a"
proof -
  obtain v' where v': "broadcast_to (length a) v = Some v'"
    and a': "those (map2 assign_row a v') = Some a'"
    using assms(1) by (auto simp add: assign_from_column2_def split: option.splits)
  have "length a = length v'"
    using broadcast_length [OF v'] by simp
  then show ?thesis
    using those_assign_heads a' assms(2) by blast
qed

lemma nth_assigned_head:
  assumes "length a = length v" and "\<forall>r \<in> set a. 2 \<le> length r" and "j < 2"
  shows "map (\<lambda>r. r ! j) (map2 (\<lambda>r s. take 2 r @ s) a v) = map (\<lambda>r. r ! j) a"
  using assms by (induction a v rule: list_induct2) (simp_all add: nth_append)

lemma nth_assigned_tail:
  assumes "length a = length v" and "\<forall>r \<in> set a. 2 \<le> length r"
  shows "map (\<lambda>r. r ! (2 + j)) (map2 (\<lambda>r s. take 2 r @ s) a v) = map (\<lambda>s. s ! j) v"
  using assms by (induction a v rule: list_induct2) (simp_all add: nth_append)

lemma length_assigned:
  assumes "length a = length v" and "\<forall>r \<in> set a. length r = 8"
    and "map length v = map (\<lambda>r. length r - 2) a"
  shows "\<forall>r \<in> set (map2 (\<lambda>r s. take 2 r @ s) a v). length r = 8"
  using assms by (induction a v rule: list_induct2) simp_all

lemma column1_two: "column1 a = Inr c \<Longrightarrow> \<forall>r \<in> set a. 2 \<le> length r"
  by (simp add: column1_def split: if_splits)


lemma length_concat_blocks:
  "length (concat (map (\<lambda>i. map (f i) ts) ids)) = length ids * length ts"
  by (induction ids) simp_all


lemma nth_concat_replicate:
  "i < n \<Longrightarrow> j < length xs \<Longrightarrow> concat (replicate n xs) ! (i * length xs + j) = xs ! j"
proof (induction n arbitrary: i)
  case 0
  then show ?case by simp
next
  case (Suc n)
  show ?case
  proof (cases i)
    case 0
    then show ?thesis using Suc.prems by (simp add: nth_append)
  next
    case (Suc k)
    then have "k < n" using Suc.prems by simp
    then have "concat (replicate n xs) ! (k * length xs + j) = xs ! j"
      using Suc.IH Suc.prems by simp
    then show ?thesis
      using Suc by (simp add: nth_append)
  qed
qed

text \<open>What the layout of the analytic backend says about single columns.\<close>

lemma layout_columns:
  assumes width: "\<forall>r \<in> set rows. length r = 8"
    and heads: "map (take 2) rows = concat (map (\<lambda>i. map (\<lambda>t. [of_int i, t]) t1) ids)"
  shows "map (\<lambda>r. r ! 0) rows = concat (map (\<lambda>i. replicate (length t1) (of_int i)) ids)"
    and "map (\<lambda>r. r ! 1) rows = concat (replicate (length ids) t1)"
    and "length rows = length ids * length t1"
proof -
  have "map (\<lambda>r. r ! 0) rows = map (\<lambda>p. p ! 0) (map (take 2) rows)"
    using width by (simp add: comp_def)
  also have "\<dots> = concat (map (\<lambda>i. map (\<lambda>t. of_int i) t1) ids)"
    unfolding heads by (simp add: map_concat comp_def)
  finally show "map (\<lambda>r. r ! 0) rows = concat (map (\<lambda>i. replicate (length t1) (of_int i)) ids)"
    by (simp add: map_replicate_const)
  have "map (\<lambda>r. r ! 1) rows = map (\<lambda>p. p ! 1) (map (take 2) rows)"
    using width by (simp add: comp_def)
  also have "\<dots> = concat (map (\<lambda>i. t1) ids)"
    unfolding heads by (simp add: map_concat comp_def)
  finally show "map (\<lambda>r. r ! 1) rows = concat (replicate (length ids) t1)"
    by (simp add: map_replicate_const)
  have "length rows = length (map (take 2) rows)"
    by simp
  then show "length rows = length ids * length t1"
    unfolding heads by (simp add: length_concat_blocks)
qed



subsection \<open>Tables\<close>

lemma map_of_replaced:
  "name \<in> fst ` set xs \<Longrightarrow>
   map_of (map (\<lambda>(n, old). if n = name then (n, c) else (n, old)) xs) name = Some c"
  by (induction xs) auto


lemma map_of_appended:
  "name \<notin> fst ` set xs \<Longrightarrow> map_of (xs @ [(name, c)]) name = Some c"
  by (induction xs) auto


text \<open>Setting a column: the column is there afterwards and the table is as long as it.
  A table that already has that many rows is not re-indexed and keeps its other columns.\<close>

lemma setitem_result:
  assumes "setitem df name c = Inr df'"
  obtains d where "nrows d = column_length c"
    and "df' = d\<lparr>cols :=
                  (if name \<in> fst ` set (cols d)
                   then map (\<lambda>(n, old). if n = name then (n, c) else (n, old)) (cols d)
                   else cols d @ [(name, c)])\<rparr>"
proof -
  define d where
    "d = (if nrows df = 0 \<and> 0 < column_length c then reindex_empty (column_length c) df else df)"
  have "setitem df name c =
      (if column_length c \<noteq> nrows d
       then Inl (ValueError ''Length of values does not match length of index'')
       else Inr (d\<lparr>cols :=
                  (if name \<in> fst ` set (cols d)
                   then map (\<lambda>(n, old). if n = name then (n, c) else (n, old)) (cols d)
                   else cols d @ [(name, c)])\<rparr>))"
    unfolding setitem_def d_def Let_def by simp
  then show ?thesis
    using assms that [of d] by (simp split: if_splits)
qed

lemma setitem_lookup:
  assumes "setitem df name c = Inr df'"
  shows "map_of (cols df') name = Some c" and "nrows df' = column_length c"
proof -
  obtain d where d: "nrows d = column_length c"
    "df' = d\<lparr>cols :=
                  (if name \<in> fst ` set (cols d)
                   then map (\<lambda>(n, old). if n = name then (n, c) else (n, old)) (cols d)
                   else cols d @ [(name, c)])\<rparr>"
    using assms by (rule setitem_result)
  show "map_of (cols df') name = Some c"
    unfolding d(2) by (simp add: map_of_replaced map_of_appended del: map_of_append)
  show "nrows df' = column_length c"
    unfolding d(2) using d(1) by simp
qed




lemma nrows_rename [simp]: "nrows (rename df old new) = nrows df"
  by (simp add: rename_def)


lemma DataFrame_canonical:
  "DataFrame a canonical_columns =
     (if \<forall>r \<in> set a. length r = 8
      then Inr \<lparr>nrows = length a,
                cols = [(''orbit_id'', Float64 (map (\<lambda>r. r ! 0) a)),
                        (''epoch_mjd_tdb'', Float64 (map (\<lambda>r. r ! 1) a)),
                        (''x'', Float64 (map (\<lambda>r. r ! 2) a)),
                        (''y'', Float64 (map (\<lambda>r. r ! 3) a)),
                        (''z'', Float64 (map (\<lambda>r. r ! 4) a)),
                        (''vx'', Float64 (map (\<lambda>r. r ! 5) a)),
                        (''vy'', Float64 (map (\<lambda>r. r ! 6) a)),
                        (''vz'', Float64 (map (\<lambda>r. r ! 7) a))]\<rparr>
      else Inl (ValueError ''Shape of passed values does not match the columns''))"
  by (simp add: DataFrame_def canonical_columns_def enumerate_eq_zip upt_rec numeral_eq_Suc)

lemma nrows_canonical [simp]: "nrows (canonical_frame a) = length a"
  by (simp add: canonical_frame_def)

lemma state_columns_canonical:
  "state_columns (canonical_frame a) = array_columns [2, 3, 4, 5, 6, 7] a"
  by (simp add: state_columns_def state_names_def canonical_frame_def array_columns_def)


subsection \<open>The steps of the dispatcher\<close>

lemma universal_kwargs_append:
  "universal_kwargs (cs @ ds) = universal_kwargs cs @ universal_kwargs ds"
  by (induction cs rule: universal_kwargs.induct) simp_all

lemma contract_at:
  assumes "list_all P cs" and "c \<in> set cs"
  shows "P c"
  using assms by (simp add: list_all_iff)

lemma unknown_backend:
  assumes "backend \<noteq> ''THOR''" and "backend \<noteq> ''PYOORB''"
  shows "select_backend env backend kw cs orbits t0 t1 t0_tdb t1_tdb =
           \<lparr>kwargs_after = Some kw, calls = cs, result = Inl (ValueError backend_message)\<rparr>"
  using assms by (simp add: select_backend_def)

lemma assemble_kwargs:
  "kwargs_after (assemble kw origin cs a) = Some (kw(''origin'' \<mapsto> origin))"
  "calls (assemble kw origin cs a) = cs"
  by (simp_all add: assemble_def Let_def split: sum.split)

lemma assemble_result:
  "result (assemble kw origin cs a) =
     (if \<forall>r \<in> set a. length r = 8 then Inr (canonical_frame a)
      else Inl (ValueError ''Shape of passed values does not match the columns''))"
  by (simp add: assemble_def DataFrame_canonical getitem_def setitem_def canonical_frame_def
      Let_def)

lemma assemble_success:
  assumes "result (assemble kw origin cs a) = Inr df"
  shows "df = canonical_frame a" and "\<forall>r \<in> set a. length r = 8"
  using assms by (simp_all add: assemble_result split: if_splits)

lemma shift_back_success:
  assumes "result (propagate_and_shift_back env kw origin cs orbits' a b) = Inr df"
  shows "kwargs_after (propagate_and_shift_back env kw origin cs orbits' a b) =
           Some (kw(''origin'' \<mapsto> origin))"
    and "universal_kwargs (calls (propagate_and_shift_back env kw origin cs orbits' a b)) =
           universal_kwargs cs @ [kw]"
  using assms
  by (auto simp add: propagate_and_shift_back_def Let_def assemble_kwargs universal_kwargs_append
      split: sum.splits if_splits)

lemma shift_back_heliocenter:
  "calls (propagate_and_shift_back env kw (Str ''heliocenter'') cs orbits' a b) =
     cs @ [UniversalCall orbits' a b kw]"
  "result (propagate_and_shift_back env kw (Str ''heliocenter'') cs orbits' a b) =
     (case propagateUniversal env orbits' a b kw of
        Inl e \<Rightarrow> Inl e
      | Inr rows \<Rightarrow>
          result (assemble kw (Str ''heliocenter'') (cs @ [UniversalCall orbits' a b kw]) rows))"
  by (simp_all add: propagate_and_shift_back_def Let_def assemble_def split: sum.split)

text \<open>A table returned by the branch of the analytic backend is the canonical frame of an
  array that agrees with the backend's rows on the first two columns.\<close>

lemma shift_back_frame:
  assumes "result (propagate_and_shift_back env kw origin cs orbits' a b) = Inr df"
  shows "\<exists>rows rows'. propagateUniversal env orbits' a b kw = Inr rows
           \<and> UniversalCall orbits' a b kw
                \<in> set (calls (propagate_and_shift_back env kw origin cs orbits' a b))
           \<and> df = canonical_frame rows' \<and> (\<forall>r \<in> set rows'. length r = 8)
           \<and> map (take 2) rows' = map (take 2) rows"
proof (cases "propagateUniversal env orbits' a b kw")
  case (Inl e)
  then show ?thesis
    using assms by (simp add: propagate_and_shift_back_def Let_def)
next
  case (Inr rows)
  show ?thesis
  proof (cases "origin = Str ''barycenter''")
    case False
    then show ?thesis
      using assms Inr
      by (auto simp add: propagate_and_shift_back_def Let_def assemble_kwargs
          dest: assemble_success)
  next
    case True
    then obtain c1 shifted rows' where c1: "column1 rows = Inr c1"
      and asg: "assign_from_column2 rows shifted = Inr rows'"
      and res: "result (assemble kw origin
                  (cs @ [UniversalCall orbits' a b kw] @
                   [ShiftCall (map (drop 2) rows) (map (MJD ''tdb'') c1)
                      ''barycenter'' ''heliocenter''])
                  rows') = Inr df"
      and cl: "calls (propagate_and_shift_back env kw origin cs orbits' a b) =
                 cs @ [UniversalCall orbits' a b kw] @
                   [ShiftCall (map (drop 2) rows) (map (MJD ''tdb'') c1)
                      ''barycenter'' ''heliocenter'']"
      using assms Inr
      by (auto simp add: propagate_and_shift_back_def Let_def assemble_kwargs split: sum.splits)
    have "map (take 2) rows' = map (take 2) rows"
      using assign_heads [OF asg column1_two [OF c1]] .
    then show ?thesis
      using Inr assemble_success [OF res] cl by auto
  qed
qed

lemma thor_frame:
  assumes "result (propagateTHOR env kw cs orbits t0 a b) = Inr df"
  shows "\<exists>orbits' kw' rows rows'. propagateUniversal env orbits' a b kw' = Inr rows
           \<and> UniversalCall orbits' a b kw' \<in> set (calls (propagateTHOR env kw cs orbits t0 a b))
           \<and> df = canonical_frame rows' \<and> (\<forall>r \<in> set rows'. length r = 8)
           \<and> map (take 2) rows' = map (take 2) rows"
proof -
  obtain origin where o: "kw ''origin'' = Some origin"
    using assms by (cases "kw ''origin''") (simp_all add: propagateTHOR_def)
  show ?thesis
  proof (cases "origin = Str ''barycenter''")
    case True
    then obtain orbits' where
      "propagateTHOR env kw cs orbits t0 a b =
         propagate_and_shift_back env (kw(''origin'' := None)) origin
           (cs @ [ShiftCall orbits t0 ''heliocenter'' ''barycenter'']) orbits' a b"
      using assms o by (auto simp add: propagateTHOR_def Let_def split: sum.splits)
    then show ?thesis
      using assms shift_back_frame by metis
  next
    case False
    then have "propagateTHOR env kw cs orbits t0 a b =
         propagate_and_shift_back env (kw(''origin'' := None)) origin cs orbits a b"
      using assms o by (auto simp add: propagateTHOR_def Let_def split: if_splits)
    then show ?thesis
      using assms shift_back_frame by metis
  qed
qed

lemma thor_layout:
  assumes res: "result (propagateTHOR env kw cs orbits t0 a b) = Inr df"
    and con: "list_all (universal_contract env ids)
                (calls (propagateTHOR env kw cs orbits t0 a b))"
  shows "\<exists>rows'. df = canonical_frame rows' \<and> (\<forall>r \<in> set rows'. length r = 8)
           \<and> map (take 2) rows' = concat (map (\<lambda>i. map (\<lambda>t. [of_int i, t]) b) ids)"
proof -
  obtain orbits' kw' rows rows' where r: "propagateUniversal env orbits' a b kw' = Inr rows"
    and c: "UniversalCall orbits' a b kw' \<in> set (calls (propagateTHOR env kw cs orbits t0 a b))"
    and d: "df = canonical_frame rows'" "\<forall>r \<in> set rows'. length r = 8"
      "map (take 2) rows' = map (take 2) rows"
    using thor_frame [OF res] by blast
  have "universal_layout ids b rows"
    using contract_at [OF con c] r by simp
  then show ?thesis
    using d by (auto simp add: universal_layout_def)
qed

text \<open>A table returned by the PYOORB branch is the backend's table with the epoch column
  renamed and then set to the TDB epochs of \<open>t1\<close>, once per orbit.\<close>

lemma pyoorb_frame:
  assumes "result (propagatePYOORB env kw cs orbits t0 t1 b) = Inr df"
  shows "\<exists>f a0 a1 kw'. propagateOrbitsPYOORB env orbits a0 a1 kw' = Inr f
           \<and> length a1 = length t1
           \<and> PyoorbCall orbits a0 a1 kw' \<in> set (calls (propagatePYOORB env kw cs orbits t0 t1 b))
           \<and> setitem (rename f ''epoch_mjd'' ''epoch_mjd_tdb'') ''epoch_mjd_tdb''
                (Float64 (concat (replicate (length orbits) b))) = Inr df"
proof -
  let ?a0 = "map (corrected_tt env) t0"
  let ?a1 = "map (corrected_tt env) t1"
  let ?kw = "kw(''time_scale'' \<mapsto> Str ''TT'')"
  have rep: "map (\<lambda>i. b) [0..<length orbits] = replicate (length orbits) b"
    by (simp add: map_replicate_const)
  obtain f where f: "propagateOrbitsPYOORB env orbits ?a0 ?a1 ?kw = Inr f"
    and s: "setitem (rename f ''epoch_mjd'' ''epoch_mjd_tdb'') ''epoch_mjd_tdb''
              (Float64 (concat (replicate (length orbits) b))) = Inr df"
    using assms unfolding propagatePYOORB_def Let_def rep
    by (auto simp add: concatenate_def split: sum.splits if_splits)
  have c: "PyoorbCall orbits ?a0 ?a1 ?kw \<in> set (calls (propagatePYOORB env kw cs orbits t0 t1 b))"
    unfolding propagatePYOORB_def Let_def
    by (simp split: sum.split)
  have "length ?a1 = length t1"
    by simp
  then show ?thesis
    using f s c by blast
qed


text \<open>A call that returns a table went through one of the two branches.\<close>

lemma dispatch_success:
  assumes "result (propagateOrbits env orbits (Time t0) (Time t1) backend kwo) = Inr df"
  shows "\<exists>kw cs.
           (backend = ''THOR'' \<and>
              propagateOrbits env orbits (Time t0) (Time t1) backend kwo =
                propagateTHOR env kw cs orbits t0 (map (tdb_mjd env) t0) (map (tdb_mjd env) t1))
         \<or> (backend = ''PYOORB'' \<and>
              propagateOrbits env orbits (Time t0) (Time t1) backend kwo =
                propagatePYOORB env kw cs orbits t0 t1 (map (tdb_mjd env) t1))"
  using assms
  by (auto simp add: propagateOrbits_def checkTime_def tdb_def select_backend_def Let_def
      split: option.splits sum.splits if_splits)





lemma pyoorb_calls:
  "calls (propagatePYOORB env kw cs orbits t0 t1 b) =
     cs @ [PyoorbCall orbits (map (corrected_tt env) t0) (map (corrected_tt env) t1)
             (kw(''time_scale'' \<mapsto> Str ''TT''))]"
  by (simp add: propagatePYOORB_def Let_def split: sum.split)



text \<open>No table without one of the two backend names.\<close>

lemma returns_only_for_a_backend:
  assumes "result (propagateOrbits env orbits t0 t1 backend kwo) = Inr df"
  shows "backend = ''THOR'' \<or> backend = ''PYOORB''"
  using assms
  by (auto simp add: propagateOrbits_def select_backend_def Let_def
      split: option.splits sum.splits if_splits)

text \<open>The log of a PYOORB call with a dictionary from the caller.\<close>

lemma pyoorb_log:
  "calls (propagateOrbits env orbits (Time t0) (Time t1) ''PYOORB'' (Some kw)) =
     [PyoorbCall orbits (map (corrected_tt env) t0) (map (corrected_tt env) t1)
        (kw(''time_scale'' \<mapsto> Str ''TT''))]"
  by (simp add: propagateOrbits_def checkTime_def tdb_def select_backend_def pyoorb_calls)

subsection \<open>The sample runs\<close>

lemmas dispatcher_defs = propagateOrbits_def checkTime_def tdb_def select_backend_def
  propagateTHOR_def propagatePYOORB_def propagate_and_shift_back_def concatenate_def column1_def

lemmas sample_defs = sample_env_def sample_tdb_def sample_tt_def sample_handler_def
  sample_shift_def sample_universal_def sample_pyoorb_def sample_orbits_def sample_t0_def
  sample_t1_def state_names_def

lemma sample_heliocenter_result:
  "result (propagateOrbits sample_env sample_orbits (Time sample_t0) (Time sample_t1) ''THOR''
     (Some [''origin'' \<mapsto> Str ''heliocenter''])) = Inr (canonical_frame sample_rows)"
  by (simp add: dispatcher_defs sample_defs assemble_result sample_rows_def Let_def)

lemma sample_barycenter_result:
  "result (propagateOrbits sample_env sample_orbits (Time sample_t0) (Time sample_t1) ''THOR''
     (Some [''origin'' \<mapsto> Str ''barycenter''])) = Inr (canonical_frame sample_shifted_rows)"
  by (simp add: dispatcher_defs sample_defs assemble_result sample_shifted_rows_def Let_def
      assign_from_column2_def broadcast_to_def assign_row_def)

lemma sample_barycenter_universal:
  "list_all (universal_contract sample_env [0, 1])
     (calls (propagateOrbits sample_env sample_orbits (Time sample_t0) (Time sample_t1) ''THOR''
        (Some [''origin'' \<mapsto> Str ''barycenter''])))"
  by (simp add: dispatcher_defs sample_defs assemble_kwargs universal_layout_def Let_def
      assign_from_column2_def broadcast_to_def assign_row_def)

lemma sample_pyoorb_result:
  "result (propagateOrbits sample_env sample_orbits (Time sample_t0) (Time sample_t1) ''PYOORB''
     (Some Map.empty)) = Inr sample_table"
  by (simp add: dispatcher_defs sample_defs sample_table_def Let_def setitem_def rename_def
      enumerate_eq_zip upt_rec)

lemma sample_pyoorb_universal:
  "list_all (universal_contract sample_env [0, 1])
     (calls (propagateOrbits sample_env sample_orbits (Time sample_t0) (Time sample_t1) ''PYOORB''
        (Some Map.empty)))"
  by (simp add: dispatcher_defs sample_defs Let_def)







text \<open>The float64 sum of lines 98 and 99 at the instant near MJD 0: the difference
  \<open>tdb - tt\<close> needs 55 bits and is rounded, and the sum with it misses \<open>tdb\<close> by \<open>2^-80\<close>.\<close>

lemma near_zero_difference:
  "fl64 (- (1 / 2 ^ 28 + 1 / 2 ^ 80) - 1 / 2 ^ 26) = - (5 / 2 ^ 28)"
  by (subst fl64_at [where k = "- 26"]) (simp_all add: round_half_even_def power_int_minus_divide)

lemma near_zero_sum: "fl64 (- (1 / 2 ^ 28)) = - (1 / 2 ^ 28)"
  by (subst fl64_at [where k = "- 28"]) (simp_all add: round_half_even_def power_int_minus_divide)

lemma near_zero_fold:
  "fl64 (1 / 2 ^ 26 + fl64 (- (1 / 2 ^ 28 + 1 / 2 ^ 80) - 1 / 2 ^ 26)) = - (1 / 2 ^ 28)"
  unfolding near_zero_difference using near_zero_sum by simp

lemma near_zero_floats:
  "is_float64 (1 / 2 ^ 26)" "is_float64 (- (1 / 2 ^ 28 + 1 / 2 ^ 80))"
proof -
  have "is_float64 (of_int 1 * 2 powi (- 26))"
    by (rule float64I) simp_all
  then show "is_float64 (1 / 2 ^ 26)"
    by (simp add: power_int_minus_divide)
  have "is_float64 (of_int (- (2 ^ 52 + 1)) * 2 powi (- 80))"
    by (rule float64I) simp_all
  then show "is_float64 (- (1 / 2 ^ 28 + 1 / 2 ^ 80))"
    by (simp add: power_int_minus_divide field_simps)
qed

section \<open>The claims\<close>

subsection \<open>Output epochs\<close>

text \<open>
  Claim C1. Whenever \<open>propagateOrbits\<close> returns a table for \<open>Time\<close> arguments \<open>t0\<close> and
  \<open>t1\<close>, the column \<open>epoch_mjd_tdb\<close> of the table is the list of the TDB Modified Julian
  Dates of \<open>t1\<close>, repeated once per orbit: the row of orbit \<open>i\<close> and target epoch \<open>j\<close> holds
  \<open>t1[j].tdb.mjd\<close>. With PYOORB the dispatcher writes that column itself (lines 106 and
  107), whatever the backend returned. With THOR the column is the one the analytic
  backend returned (the shift back for the barycenter leaves it alone), so that the
  statement rests on the backend echoing its target epochs row by row, as its interface
  says; the hypothesis asks that of the backend call of this run. Both backends, a
  dictionary from the caller or the defaults. Float64 values are reals here.
\<close>

theorem epoch_column_is_tdb_of_t1:
  assumes res: "result (propagateOrbits env orbits (Time t0) (Time t1) backend kwo) = Inr df"
    and con: "list_all (universal_contract env ids)
                (calls (propagateOrbits env orbits (Time t0) (Time t1) backend kwo))"
    and ids: "length ids = length orbits"
  shows "map_of (cols df) ''epoch_mjd_tdb'' =
           Some (Float64 (concat (replicate (length orbits) (map (tdb_mjd env) t1))))
         \<and> (\<forall>i < length orbits. \<forall>j < length t1.
               concat (replicate (length orbits) (map (tdb_mjd env) t1)) ! (i * length t1 + j) =
                 tdb_mjd env (t1 ! j))"
proof -
  let ?b = "map (tdb_mjd env) t1"
  have rows: "\<forall>i < length orbits. \<forall>j < length t1.
      concat (replicate (length orbits) ?b) ! (i * length t1 + j) = tdb_mjd env (t1 ! j)"
    using nth_concat_replicate [of _ "length orbits" _ ?b] by simp
  consider kw cs where "backend = ''THOR''"
      "propagateOrbits env orbits (Time t0) (Time t1) backend kwo =
         propagateTHOR env kw cs orbits t0 (map (tdb_mjd env) t0) ?b"
    | kw cs where "backend = ''PYOORB''"
      "propagateOrbits env orbits (Time t0) (Time t1) backend kwo =
         propagatePYOORB env kw cs orbits t0 t1 ?b"
    using dispatch_success [OF res] by blast
  then have "map_of (cols df) ''epoch_mjd_tdb'' =
      Some (Float64 (concat (replicate (length orbits) ?b)))"
  proof cases
    case 1
    then obtain rows' where d: "df = canonical_frame rows'" "\<forall>r \<in> set rows'. length r = 8"
      "map (take 2) rows' = concat (map (\<lambda>i. map (\<lambda>t. [of_int i, t]) ?b) ids)"
      using thor_layout res con by metis
    have "map (\<lambda>r. r ! 1) rows' = concat (replicate (length ids) ?b)"
      using layout_columns(2) [OF d(2) d(3)] .
    then show ?thesis
      using d(1) ids by (simp add: canonical_frame_def)
  next
    case 2
    then obtain f where "setitem (rename f ''epoch_mjd'' ''epoch_mjd_tdb'') ''epoch_mjd_tdb''
                (Float64 (concat (replicate (length orbits) ?b))) = Inr df"
      using pyoorb_frame res by metis
    then show ?thesis
      by (rule setitem_lookup(1))
  qed
  then show ?thesis
    using rows by simp
qed

text \<open>The theorem on the sample runs.\<close>

theorem epoch_column_is_tdb_of_t1_witness:
  "(\<exists>df. result (propagateOrbits sample_env sample_orbits (Time sample_t0) (Time sample_t1)
             ''THOR'' (Some [''origin'' \<mapsto> Str ''barycenter''])) = Inr df
        \<and> map_of (cols df) ''epoch_mjd_tdb'' =
            Some (Float64 [59002 + 1 / 4, 59003 + 1 / 4, 59002 + 1 / 4, 59003 + 1 / 4]))
   \<and> (\<exists>df. result (propagateOrbits sample_env sample_orbits (Time sample_t0) (Time sample_t1)
             ''PYOORB'' (Some Map.empty)) = Inr df
        \<and> map_of (cols df) ''epoch_mjd_tdb'' =
            Some (Float64 [59002 + 1 / 4, 59003 + 1 / 4, 59002 + 1 / 4, 59003 + 1 / 4]))"
proof -
  have n: "length [0, 1 :: int] = length sample_orbits"
    by (simp add: sample_orbits_def)
  have times: "concat (replicate (length sample_orbits) (map (tdb_mjd sample_env) sample_t1)) =
      [59002 + 1 / 4, 59003 + 1 / 4, 59002 + 1 / 4, 59003 + 1 / 4]"
    by (simp add: sample_defs numeral_2_eq_2)
  show ?thesis
    using epoch_column_is_tdb_of_t1 [OF sample_barycenter_result sample_barycenter_universal n]
      epoch_column_is_tdb_of_t1 [OF sample_pyoorb_result sample_pyoorb_universal n]
      sample_barycenter_result sample_pyoorb_result
    unfolding times by simp
qed

subsection \<open>Rows and identifiers\<close>




subsection \<open>Schema\<close>




subsection \<open>Origin shifts around the analytic backend\<close>

text \<open>
  Claim C4. With THOR and the origin \<open>barycenter\<close>, on a run where the two shifts and the
  backend return (the backend eight columns, the second shift the shape it was given),
  the log is: the shift of the input orbits from heliocenter to barycenter at the
  \<open>Time\<close> object \<open>t0\<close>; the backend, on the shifted orbits, the TDB epochs and the
  dictionary without the origin; the shift from barycenter to heliocenter of columns 2
  onward of all returned rows, its epochs being the TDB instants read row by row from
  column 1 of those rows. The table has one row per returned row; its state columns are
  the result of that second shift, its identifier and epoch columns are the backend's.
\<close>

theorem barycenter_shift_in_and_out:
  assumes origin: "kw ''origin'' = Some (Str ''barycenter'')"
    and shift_in: "shiftOrbitsOrigin env orbits t0 ''heliocenter'' ''barycenter'' = Inr orbits'"
    and backend: "propagateUniversal env orbits' (map (tdb_mjd env) t0) (map (tdb_mjd env) t1)
                    (kw(''origin'' := None)) = Inr rows"
    and width: "\<forall>r \<in> set rows. length r = 8"
    and shift_out: "shiftOrbitsOrigin env (map (drop 2) rows)
                      (map (\<lambda>r. MJD ''tdb'' (r ! 1)) rows) ''barycenter'' ''heliocenter'' =
                    Inr shifted"
    and shape: "map length shifted = map length (map (drop 2) rows)"
  shows "calls (propagateOrbits env orbits (Time t0) (Time t1) ''THOR'' (Some kw)) =
           [ShiftCall orbits t0 ''heliocenter'' ''barycenter'',
            UniversalCall orbits' (map (tdb_mjd env) t0) (map (tdb_mjd env) t1)
              (kw(''origin'' := None)),
            ShiftCall (map (drop 2) rows) (map (\<lambda>r. MJD ''tdb'' (r ! 1)) rows)
              ''barycenter'' ''heliocenter'']
         \<and> (\<exists>df. result (propagateOrbits env orbits (Time t0) (Time t1) ''THOR'' (Some kw)) = Inr df
              \<and> nrows df = length rows
              \<and> state_columns df = array_columns [0, 1, 2, 3, 4, 5] shifted
              \<and> map_of (cols df) ''epoch_mjd_tdb'' = Some (Float64 (map (\<lambda>r. r ! 1) rows))
              \<and> map_of (cols df) ''orbit_id'' =
                  Some (Int64 (map (\<lambda>r. float_to_int (r ! 0)) rows)))"
proof -
  let ?a = "map2 (\<lambda>r s. take 2 r @ s) rows shifted"
  let ?cs = "[ShiftCall orbits t0 ''heliocenter'' ''barycenter'',
            UniversalCall orbits' (map (tdb_mjd env) t0) (map (tdb_mjd env) t1)
              (kw(''origin'' := None)),
            ShiftCall (map (drop 2) rows) (map (\<lambda>r. MJD ''tdb'' (r ! 1)) rows)
              ''barycenter'' ''heliocenter'']"
  have len: "length rows = length shifted"
    using shape by (metis length_map)
  have two: "\<forall>r \<in> set rows. 2 \<le> length r"
    using width by simp
  have shape': "map length shifted = map (\<lambda>r. length r - 2) rows"
    using shape by (simp add: comp_def)
  have c1: "column1 rows = Inr (map (\<lambda>r. r ! 1) rows)"
    using two by (simp add: column1_def)
  have P: "propagateOrbits env orbits (Time t0) (Time t1) ''THOR'' (Some kw) =
        assemble (kw(''origin'' := None)) (Str ''barycenter'') ?cs ?a"
    using origin shift_in backend shift_out c1 assign_same_shape [OF shape']
    by (simp add: propagateOrbits_def checkTime_def tdb_def select_backend_def propagateTHOR_def
        propagate_and_shift_back_def Let_def comp_def)
  have w8: "\<forall>r \<in> set ?a. length r = 8"
    using length_assigned [OF len width shape'] .
  have res: "result (assemble (kw(''origin'' := None)) (Str ''barycenter'') ?cs ?a) =
      Inr (canonical_frame ?a)"
    unfolding assemble_result using w8 by (rule if_P)
  have tails: "state_columns (canonical_frame ?a) = array_columns [0, 1, 2, 3, 4, 5] shifted"
    using nth_assigned_tail [OF len two, of 0] nth_assigned_tail [OF len two, of 1]
      nth_assigned_tail [OF len two, of 2] nth_assigned_tail [OF len two, of 3]
      nth_assigned_tail [OF len two, of 4] nth_assigned_tail [OF len two, of 5]
    by (simp add: state_columns_canonical array_columns_def)
  have heads: "map (\<lambda>r. r ! 0) ?a = map (\<lambda>r. r ! 0) rows"
    "map (\<lambda>r. r ! 1) ?a = map (\<lambda>r. r ! 1) rows"
    using nth_assigned_head [OF len two, of 0] nth_assigned_head [OF len two, of 1]
    by simp_all
  have ids: "map (\<lambda>r. float_to_int (r ! 0)) ?a = map (\<lambda>r. float_to_int (r ! 0)) rows"
    using arg_cong [OF heads(1), of "map float_to_int"] by (simp add: comp_def)
  have lookups:
    "map_of (cols (canonical_frame ?a)) ''epoch_mjd_tdb'' = Some (Float64 (map (\<lambda>r. r ! 1) rows))"
    "map_of (cols (canonical_frame ?a)) ''orbit_id'' =
       Some (Int64 (map (\<lambda>r. float_to_int (r ! 0)) rows))"
    using heads(2) ids by (simp_all add: canonical_frame_def)
  have n: "nrows (canonical_frame ?a) = length rows"
    using len by simp
  show ?thesis
    unfolding P using res tails lookups n by (simp add: assemble_kwargs)
qed

text \<open>The theorem on the sample runs.\<close>

theorem barycenter_shift_in_and_out_witness:
  "calls (propagateOrbits sample_env sample_orbits (Time sample_t0) (Time sample_t1) ''THOR''
       (Some [''origin'' \<mapsto> Str ''barycenter''])) =
     [ShiftCall sample_orbits sample_t0 ''heliocenter'' ''barycenter'',
      UniversalCall [[2, 1, 1, 1, 2, 1], [3, 1, 1, 1, 4, 1]]
        (map (tdb_mjd sample_env) sample_t0) (map (tdb_mjd sample_env) sample_t1)
        ([''origin'' \<mapsto> Str ''barycenter''](''origin'' := None)),
      ShiftCall (map (drop 2) sample_barycentric_rows)
        (map (\<lambda>r. MJD ''tdb'' (r ! 1)) sample_barycentric_rows) ''barycenter'' ''heliocenter'']
   \<and> (\<exists>df. result (propagateOrbits sample_env sample_orbits (Time sample_t0) (Time sample_t1)
               ''THOR'' (Some [''origin'' \<mapsto> Str ''barycenter''])) = Inr df
          \<and> nrows df = length sample_barycentric_rows
          \<and> state_columns df = array_columns [0, 1, 2, 3, 4, 5] (map (drop 2) sample_shifted_rows)
          \<and> map_of (cols df) ''epoch_mjd_tdb'' =
              Some (Float64 (map (\<lambda>r. r ! 1) sample_barycentric_rows))
          \<and> map_of (cols df) ''orbit_id'' =
              Some (Int64 (map (\<lambda>r. float_to_int (r ! 0)) sample_barycentric_rows)))"
  by (rule barycenter_shift_in_and_out)
     (simp_all add: sample_defs sample_barycentric_rows_def sample_shifted_rows_def)

subsection \<open>The origin in the caller's dictionary\<close>

text \<open>
  Claim C5. If a call with the backend THOR and a dictionary \<open>kw\<close> from the caller
  returns a table, then \<open>kw\<close> held the key \<open>origin\<close>, the dictionary is \<open>kw\<close> again when the
  call ends (so the key is bound to the value passed in), and the analytic backend was
  called exactly once, with \<open>kw\<close> without that key: the key was removed in between.
\<close>

theorem origin_restored_after_success:
  assumes "result (propagateOrbits env orbits t0 t1 ''THOR'' (Some kw)) = Inr df"
  shows "kw ''origin'' \<noteq> None
         \<and> kwargs_after (propagateOrbits env orbits t0 t1 ''THOR'' (Some kw)) = Some kw
         \<and> universal_kwargs (calls (propagateOrbits env orbits t0 t1 ''THOR'' (Some kw))) =
             [kw(''origin'' := None)]"
proof -
  obtain a b where t: "t0 = Time a" "t1 = Time b"
    using assms by (cases t0; cases t1) (simp_all add: propagateOrbits_def checkTime_def tdb_def)
  obtain v where v: "kw ''origin'' = Some v"
    using assms t
    by (cases "kw ''origin''")
       (simp_all add: propagateOrbits_def checkTime_def tdb_def select_backend_def propagateTHOR_def
          Let_def)
  have restored: "(kw(''origin'' := None))(''origin'' \<mapsto> v) = kw"
    using v by (simp add: fun_upd_idem)
  show ?thesis
    using assms t v restored
    by (auto simp add: propagateOrbits_def checkTime_def tdb_def select_backend_def propagateTHOR_def
        Let_def universal_kwargs_append
        dest: shift_back_success split: sum.splits if_splits)
qed

text \<open>The theorem on the sample runs.\<close>

theorem origin_restored_after_success_witness:
  "[''origin'' \<mapsto> Str ''barycenter''] ''origin'' \<noteq> None
   \<and> kwargs_after (propagateOrbits sample_env sample_orbits (Time sample_t0) (Time sample_t1)
        ''THOR'' (Some [''origin'' \<mapsto> Str ''barycenter''])) =
       Some [''origin'' \<mapsto> Str ''barycenter'']
   \<and> universal_kwargs (calls (propagateOrbits sample_env sample_orbits (Time sample_t0)
        (Time sample_t1) ''THOR'' (Some [''origin'' \<mapsto> Str ''barycenter'']))) =
       [[''origin'' \<mapsto> Str ''barycenter''](''origin'' := None)]"
  by (rule origin_restored_after_success) (rule sample_barycenter_result)

subsection \<open>The epochs handed to PYOORB\<close>

text \<open>
  Claim C6. Lines 98 and 99 compute \<open>t.tt.mjd + (t.tdb.mjd - t.tt.mjd)\<close> in float64. When
  the two Modified Julian Dates of every entry of \<open>t0\<close> and \<open>t1\<close> are float64 values of
  one sign, neither more than twice the other, the difference is exact, the sum is
  \<open>t.tdb.mjd\<close> for every entry, and the one call of PYOORB receives, for \<open>t0\<close> and for \<open>t1\<close>,
  the lists of the TDB Modified Julian Dates of all their entries (together with the
  caller's orbits and the dictionary with \<open>time_scale\<close> set to \<open>TT\<close>). TT and TDB differ
  by less than two milliseconds, so this covers every epoch further than a few
  milliseconds from MJD 0. For every epoch, as the claim is worded, the equality fails:
  shown after the theorem.
\<close>

theorem pyoorb_receives_tdb_epochs_where_exact:
  assumes "\<forall>t \<in> set (t0 @ t1). exact_fold env t"
  shows "(\<forall>t \<in> set (t0 @ t1). corrected_tt env t = tdb_mjd env t)
         \<and> calls (propagateOrbits env orbits (Time t0) (Time t1) ''PYOORB'' (Some kw)) =
             [PyoorbCall orbits (map (tdb_mjd env) t0) (map (tdb_mjd env) t1)
                (kw(''time_scale'' \<mapsto> Str ''TT''))]"
proof -
  have eq: "corrected_tt env t = tdb_mjd env t" if "t \<in> set (t0 @ t1)" for t
  proof -
    have "exact_fold env t"
      using assms that by blast
    then show ?thesis
      unfolding exact_fold_def corrected_tt_def by (intro fold_offset) simp_all
  qed
  then have "map (corrected_tt env) t0 = map (tdb_mjd env) t0"
    and "map (corrected_tt env) t1 = map (tdb_mjd env) t1"
    by simp_all
  then show ?thesis
    using eq by (simp add: pyoorb_log)
qed

text \<open>Where the claim fails: an instant with TT at \<open>2^-26\<close> days and TDB at
  \<open>-(2^-28 + 2^-80)\<close> days, both float64 values. The corrected epoch is \<open>-2^-28\<close>, and that
  is what PYOORB is handed.\<close>

theorem pyoorb_epoch_near_zero_counterexample:
  "is_float64 (tt_mjd near_zero_env (MJD ''tt'' (1 / 2 ^ 26)))
   \<and> is_float64 (tdb_mjd near_zero_env (MJD ''tt'' (1 / 2 ^ 26)))
   \<and> tdb_mjd near_zero_env (MJD ''tt'' (1 / 2 ^ 26)) = - (1 / 2 ^ 28 + 1 / 2 ^ 80)
   \<and> corrected_tt near_zero_env (MJD ''tt'' (1 / 2 ^ 26)) = - (1 / 2 ^ 28)
   \<and> corrected_tt near_zero_env (MJD ''tt'' (1 / 2 ^ 26)) \<noteq>
       tdb_mjd near_zero_env (MJD ''tt'' (1 / 2 ^ 26))
   \<and> calls (propagateOrbits near_zero_env sample_orbits
        (Time [MJD ''tt'' (1 / 2 ^ 26), MJD ''tt'' (1 / 2 ^ 26)]) (Time [MJD ''tt'' (1 / 2 ^ 26)])
        ''PYOORB'' (Some Map.empty)) =
       [PyoorbCall sample_orbits [- (1 / 2 ^ 28), - (1 / 2 ^ 28)] [- (1 / 2 ^ 28)]
          [''time_scale'' \<mapsto> Str ''TT'']]"
  using near_zero_floats near_zero_fold
  by (simp add: near_zero_env_def sample_env_def corrected_tt_def pyoorb_log)

text \<open>The theorem on the sample run.\<close>

theorem pyoorb_receives_tdb_epochs_where_exact_witness:
  "corrected_tt sample_env (MJD ''utc'' 59001) = 59001 + 1 / 4
   \<and> corrected_tt sample_env (MJD ''utc'' 59002) = 59002 + 1 / 4
   \<and> corrected_tt sample_env (MJD ''utc'' 59003) = 59003 + 1 / 4
   \<and> calls (propagateOrbits sample_env sample_orbits (Time sample_t0) (Time sample_t1)
        ''PYOORB'' (Some Map.empty)) =
       [PyoorbCall sample_orbits [59001 + 1 / 4, 59001 + 1 / 4] [59002 + 1 / 4, 59003 + 1 / 4]
          [''time_scale'' \<mapsto> Str ''TT'']]"
proof -
  have whole: "is_float64 59001" "is_float64 59002" "is_float64 59003"
    using float64I [of 59001 0] float64I [of 59002 0] float64I [of 59003 0] by simp_all
  have quarter: "is_float64 (59001 + 1 / 4)" "is_float64 (59002 + 1 / 4)"
    "is_float64 (59003 + 1 / 4)"
    using float64I [of 236005 "- 2"] float64I [of 236009 "- 2"] float64I [of 236013 "- 2"]
    by (simp_all add: power_int_minus_divide)
  have exact: "\<forall>t \<in> set (sample_t0 @ sample_t1). exact_fold sample_env t"
    using whole quarter
    by (simp add: sample_t0_def sample_t1_def exact_fold_def within_factor_two_def
        sample_env_def sample_tdb_def sample_tt_def)
  show ?thesis
    using pyoorb_receives_tdb_epochs_where_exact [OF exact, of sample_orbits Map.empty]
    by (simp add: sample_t0_def sample_t1_def sample_env_def sample_tdb_def)
qed

subsection \<open>Error paths\<close>

text \<open>
  Claim C7. For a backend name other than \<open>THOR\<close> and \<open>PYOORB\<close> the call returns no table,
  whatever the other arguments are. Which exception it raises depends on them:
  \<^item> for \<open>Time\<close> arguments that convert to TDB and a dictionary from the caller, the
    ValueError of lines 110 to 113 (the specification's \<open>UnsupportedBackend\<close>), with no
    collaborator called and the dictionary untouched;
  \<^item> for such arguments and no dictionary (\<open>None\<close>), what \<open>_backendHandler\<close> raises when it
    is asked for the defaults of that name (lines 50 and 51), and the same ValueError
    only when the handler returns defaults;
  \<^item> for a \<open>Time\<close> argument whose conversion to TDB raises (lines 47 and 48), the
    exception of the conversion, with or without a dictionary.
  The claim as it is worded, \<open>UnsupportedBackend\<close> for all well-formed times and any
  options, fails on the second and the third: shown after the theorem.
\<close>

theorem unsupported_backend_outcome:
  assumes "backend \<noteq> ''THOR''" and "backend \<noteq> ''PYOORB''"
  shows "propagateOrbits env orbits (Time a) (Time b) backend (Some kw) =
           \<lparr>kwargs_after = Some kw, calls = [], result = Inl (ValueError backend_message)\<rparr>
         \<and> result (propagateOrbits env orbits (Time a) (Time b) backend None) =
             Inl (case backendHandler env backend ''propagate'' of
                    Inl e \<Rightarrow> e | Inr kw' \<Rightarrow> ValueError backend_message)
         \<and> result (propagateOrbits env orbits (UnconvertibleTime e) (Time b) backend kwo) = Inl e
         \<and> result (propagateOrbits env orbits (Time a) (UnconvertibleTime e) backend kwo) = Inl e
         \<and> isl (result (propagateOrbits env orbits t0 t1 backend kwo))"
proof -
  have "isl (result (propagateOrbits env orbits t0 t1 backend kwo))"
    using returns_only_for_a_backend [of env orbits t0 t1 backend kwo] assms
    by (cases "result (propagateOrbits env orbits t0 t1 backend kwo)") simp_all
  then show ?thesis
    using assms
    by (simp add: propagateOrbits_def checkTime_def tdb_def unknown_backend Let_def
        split: sum.split)
qed

text \<open>Where the claim fails: a \<open>Time\<close> in the scale \<open>local\<close>, and the sample request without
  a dictionary, the defaults being looked up by the backend's name.\<close>

theorem unsupported_backend_counterexample:
  "result (propagateOrbits sample_env sample_orbits (UnconvertibleTime (ScaleValueError ''local''))
      (Time sample_t1) ''BOGUS'' (Some Map.empty)) = Inl (ScaleValueError ''local'')
   \<and> result (propagateOrbits sample_env sample_orbits (Time sample_t0) (Time sample_t1)
        ''BOGUS'' None) = Inl (KeyError ''BOGUS'')"
  by (simp add: propagateOrbits_def checkTime_def tdb_def sample_env_def sample_handler_def)

text \<open>The theorem on the sample runs.\<close>

theorem unsupported_backend_outcome_witness:
  "propagateOrbits sample_env sample_orbits (Time sample_t0) (Time sample_t1) ''BOGUS''
     (Some [''origin'' \<mapsto> Str ''heliocenter'']) =
     \<lparr>kwargs_after = Some [''origin'' \<mapsto> Str ''heliocenter''], calls = [],
      result = Inl (ValueError backend_message)\<rparr>
   \<and> result (propagateOrbits sample_env sample_orbits (Time sample_t0) (Time sample_t1)
        ''BOGUS'' None) = Inl (KeyError ''BOGUS'')
   \<and> result (propagateOrbits sample_env sample_orbits
        (UnconvertibleTime (ScaleValueError ''local'')) (Time sample_t1) ''BOGUS'' None) =
       Inl (ScaleValueError ''local'')
   \<and> result (propagateOrbits sample_env sample_orbits (Time sample_t0)
        (UnconvertibleTime (ScaleValueError ''local'')) ''BOGUS'' None) =
       Inl (ScaleValueError ''local'')
   \<and> isl (result (propagateOrbits sample_env sample_orbits NotTime (Time sample_t1)
        ''BOGUS'' None))"
  using unsupported_backend_outcome [of "''BOGUS''" sample_env sample_orbits sample_t0 sample_t1
      "[''origin'' \<mapsto> Str ''heliocenter'']" "ScaleValueError ''local''" None NotTime
      "Time sample_t1"]
  by (simp add: sample_env_def sample_handler_def)

text \<open>
  Claim C8. With THOR and a dictionary from the caller that has no \<open>origin\<close>, or binds it
  to something other than \<open>heliocenter\<close> and \<open>barycenter\<close>, the call returns no table and
  the log is empty, whatever the time arguments are: neither the backend nor the origin
  shift is called. For \<open>Time\<close> arguments that convert to TDB the exception is the KeyError
  of \<open>pop\<close> (line 54) for the missing key and the ValueError of lines 66 to 69 for the
  unrecognised value; both are the specification's \<open>InvalidConfiguration\<close>. For a \<open>Time\<close>
  argument whose conversion to TDB raises (lines 47 and 48, before the dictionary is
  read) the exception is that of the conversion: there the claim as it is worded,
  \<open>InvalidConfiguration\<close> for all well-formed times, fails, as shown after the theorem.
\<close>

theorem invalid_origin_outcome:
  assumes "kw ''origin'' \<noteq> Some (Str ''heliocenter'')"
    and "kw ''origin'' \<noteq> Some (Str ''barycenter'')"
  shows "calls (propagateOrbits env orbits (Time a) (Time b) ''THOR'' (Some kw)) = []
         \<and> result (propagateOrbits env orbits (Time a) (Time b) ''THOR'' (Some kw)) =
             Inl (case kw ''origin'' of
                    None \<Rightarrow> KeyError ''origin'' | Some v \<Rightarrow> ValueError origin_message)
         \<and> result (propagateOrbits env orbits (UnconvertibleTime e) (Time b) ''THOR'' (Some kw)) =
             Inl e
         \<and> result (propagateOrbits env orbits (Time a) (UnconvertibleTime e) ''THOR'' (Some kw)) =
             Inl e
         \<and> calls (propagateOrbits env orbits t0 t1 ''THOR'' (Some kw)) = []
         \<and> isl (result (propagateOrbits env orbits t0 t1 ''THOR'' (Some kw)))"
  using assms
  by (cases t0; cases t1)
     (auto simp add: propagateOrbits_def checkTime_def tdb_def select_backend_def
        propagateTHOR_def Let_def split: option.split)

text \<open>Where the claim fails: a \<open>Time\<close> in the scale \<open>local\<close>, for \<open>t0\<close> with the key missing
  and for \<open>t1\<close> with an unrecognised origin.\<close>

theorem invalid_origin_counterexample:
  "result (propagateOrbits sample_env sample_orbits (UnconvertibleTime (ScaleValueError ''local''))
      (Time sample_t1) ''THOR'' (Some Map.empty)) = Inl (ScaleValueError ''local'')
   \<and> result (propagateOrbits sample_env sample_orbits (Time sample_t0)
        (UnconvertibleTime (ScaleValueError ''local'')) ''THOR''
        (Some [''origin'' \<mapsto> Str ''geocenter''])) = Inl (ScaleValueError ''local'')"
  by (simp add: propagateOrbits_def checkTime_def tdb_def)

text \<open>The theorem on the sample runs.\<close>

theorem invalid_origin_outcome_witness:
  "calls (propagateOrbits sample_env sample_orbits (Time sample_t0) (Time sample_t1) ''THOR''
     (Some Map.empty)) = []
   \<and> result (propagateOrbits sample_env sample_orbits (Time sample_t0) (Time sample_t1) ''THOR''
       (Some Map.empty)) = Inl (KeyError ''origin'')
   \<and> calls (propagateOrbits sample_env sample_orbits (Time sample_t0) (Time sample_t1) ''THOR''
       (Some [''origin'' \<mapsto> Str ''geocenter''])) = []
   \<and> result (propagateOrbits sample_env sample_orbits (Time sample_t0) (Time sample_t1) ''THOR''
       (Some [''origin'' \<mapsto> Str ''geocenter''])) = Inl (ValueError origin_message)
   \<and> result (propagateOrbits sample_env sample_orbits
        (UnconvertibleTime (ScaleValueError ''local'')) (Time sample_t1) ''THOR''
        (Some Map.empty)) = Inl (ScaleValueError ''local'')"
  using invalid_origin_outcome [of Map.empty sample_env sample_orbits sample_t0 sample_t1
      "ScaleValueError ''local''" NotTime NotTime]
    invalid_origin_outcome [of "[''origin'' \<mapsto> Str ''geocenter'']" sample_env sample_orbits
      sample_t0 sample_t1 "ScaleValueError ''local''" NotTime NotTime]
  by simp

subsection \<open>The heliocentric path\<close>

text \<open>
  Claim C9. With THOR and the origin \<open>heliocenter\<close>, the only collaborator called is the
  analytic backend, on the caller's orbits as they are, the TDB epochs of \<open>t0\<close> and \<open>t1\<close>
  and the dictionary without the origin: no origin shift takes place. The call fails
  exactly as that direct propagation fails, it returns a table when the direct
  propagation returns rows of eight columns, and the state columns of every table it
  returns are columns 2 to 7 of the rows of the direct propagation.
\<close>

theorem heliocenter_is_direct_propagation:
  assumes "kw ''origin'' = Some (Str ''heliocenter'')"
  shows "calls (propagateOrbits env orbits (Time t0) (Time t1) ''THOR'' (Some kw)) =
           [UniversalCall orbits (map (tdb_mjd env) t0) (map (tdb_mjd env) t1)
              (kw(''origin'' := None))]
         \<and> (\<forall>e. direct_propagation env orbits t0 t1 (kw(''origin'' := None)) = Inl e \<longrightarrow>
                result (propagateOrbits env orbits (Time t0) (Time t1) ''THOR'' (Some kw)) = Inl e)
         \<and> (\<forall>rows. direct_propagation env orbits t0 t1 (kw(''origin'' := None)) = Inr rows \<longrightarrow>
                (\<forall>r \<in> set rows. length r = 8) \<longrightarrow>
                (\<exists>df. result (propagateOrbits env orbits (Time t0) (Time t1) ''THOR'' (Some kw)) =
                        Inr df))
         \<and> (\<forall>df. result (propagateOrbits env orbits (Time t0) (Time t1) ''THOR'' (Some kw)) =
                   Inr df \<longrightarrow>
                (\<exists>rows. direct_propagation env orbits t0 t1 (kw(''origin'' := None)) = Inr rows
                   \<and> nrows df = length rows
                   \<and> state_columns df = array_columns [2, 3, 4, 5, 6, 7] rows))"
proof -
  have P: "propagateOrbits env orbits (Time t0) (Time t1) ''THOR'' (Some kw) =
        propagate_and_shift_back env (kw(''origin'' := None)) (Str ''heliocenter'') [] orbits
          (map (tdb_mjd env) t0) (map (tdb_mjd env) t1)"
    using assms
    by (simp add: propagateOrbits_def checkTime_def tdb_def select_backend_def propagateTHOR_def Let_def)
  show ?thesis
    unfolding P direct_propagation_def
    by (auto simp add: shift_back_heliocenter assemble_result state_columns_canonical
        split: sum.splits if_splits)
qed

text \<open>The theorem on the sample runs.\<close>

theorem heliocenter_is_direct_propagation_witness:
  "calls (propagateOrbits sample_env sample_orbits (Time sample_t0) (Time sample_t1) ''THOR''
     (Some [''origin'' \<mapsto> Str ''heliocenter''])) =
     [UniversalCall sample_orbits (map (tdb_mjd sample_env) sample_t0)
        (map (tdb_mjd sample_env) sample_t1) ([''origin'' \<mapsto> Str ''heliocenter''](''origin'' := None))]
   \<and> (\<exists>df rows. result (propagateOrbits sample_env sample_orbits (Time sample_t0)
                      (Time sample_t1) ''THOR'' (Some [''origin'' \<mapsto> Str ''heliocenter''])) = Inr df
          \<and> direct_propagation sample_env sample_orbits sample_t0 sample_t1
               ([''origin'' \<mapsto> Str ''heliocenter''](''origin'' := None)) = Inr rows
          \<and> nrows df = 4
          \<and> state_columns df = array_columns [2, 3, 4, 5, 6, 7] rows)"
proof -
  have o: "[''origin'' \<mapsto> Str ''heliocenter''] ''origin'' = Some (Str ''heliocenter'')"
    by simp
  have direct: "direct_propagation sample_env sample_orbits sample_t0 sample_t1
      ([''origin'' \<mapsto> Str ''heliocenter''](''origin'' := None)) = Inr sample_rows"
    by (simp add: direct_propagation_def sample_defs sample_rows_def)
  have four: "length sample_rows = 4"
    by (simp add: sample_rows_def)
  show ?thesis
    using heliocenter_is_direct_propagation
        [of "[''origin'' \<mapsto> Str ''heliocenter'']" sample_env sample_orbits sample_t0 sample_t1, OF o]
      sample_heliocenter_result direct four
    by auto
qed

subsection \<open>The dictionary after an invalid origin\<close>

text \<open>
  Claim C10. With THOR and a dictionary \<open>kw\<close> from the caller whose \<open>origin\<close> is neither
  \<open>heliocenter\<close> nor \<open>barycenter\<close>, the call fails. For \<open>Time\<close> arguments that convert to TDB
  it raises the ValueError of lines 66 to 69 and the dictionary it leaves behind is \<open>kw\<close>
  without the key \<open>origin\<close>: \<open>pop\<close> removed the key and the error path does not put it
  back. For any other time arguments the call fails before line 54, at the check or at
  the conversion, and the dictionary is \<open>kw\<close> as it was, the key still in it: there the
  claim as it is worded, the key removed after every such call, fails, as shown after
  the theorem.
\<close>

theorem invalid_origin_key_after_failure:
  assumes "kw ''origin'' = Some v" and "v \<noteq> Str ''heliocenter''" and "v \<noteq> Str ''barycenter''"
  shows "propagateOrbits env orbits (Time a) (Time b) ''THOR'' (Some kw) =
           \<lparr>kwargs_after = Some (kw(''origin'' := None)), calls = [],
            result = Inl (ValueError origin_message)\<rparr>
         \<and> (kw(''origin'' := None)) ''origin'' = None
         \<and> kw(''origin'' := None) \<noteq> kw
         \<and> (\<not> (\<exists>a b. t0 = Time a \<and> t1 = Time b) \<longrightarrow>
              kwargs_after (propagateOrbits env orbits t0 t1 ''THOR'' (Some kw)) = Some kw
              \<and> isl (result (propagateOrbits env orbits t0 t1 ''THOR'' (Some kw))))"
proof -
  have "(kw(''origin'' := None)) ''origin'' \<noteq> kw ''origin''"
    using assms(1) by simp
  then have changed: "kw(''origin'' := None) \<noteq> kw"
    by metis
  have kept: "kwargs_after (propagateOrbits env orbits t0 t1 ''THOR'' (Some kw)) = Some kw
      \<and> isl (result (propagateOrbits env orbits t0 t1 ''THOR'' (Some kw)))"
    if "\<not> (\<exists>a b. t0 = Time a \<and> t1 = Time b)"
    using that
    by (cases t0; cases t1) (simp_all add: propagateOrbits_def checkTime_def tdb_def)
  show ?thesis
    using assms changed kept
    by (simp add: propagateOrbits_def checkTime_def tdb_def select_backend_def propagateTHOR_def
        Let_def)
qed

text \<open>Where the claim fails: an argument \<open>t0\<close> that is no \<open>Time\<close>, and a \<open>Time\<close> in the scale
  \<open>local\<close>; the key \<open>origin\<close> is still bound after both calls.\<close>

theorem invalid_origin_key_kept_counterexample:
  "propagateOrbits sample_env sample_orbits NotTime (Time sample_t1) ''THOR''
     (Some [''origin'' \<mapsto> Str ''geocenter'']) =
     \<lparr>kwargs_after = Some [''origin'' \<mapsto> Str ''geocenter''], calls = [],
      result = Inl (TypeError ''t0'')\<rparr>
   \<and> propagateOrbits sample_env sample_orbits (UnconvertibleTime (ScaleValueError ''local''))
       (Time sample_t1) ''THOR'' (Some [''origin'' \<mapsto> Str ''geocenter'']) =
       \<lparr>kwargs_after = Some [''origin'' \<mapsto> Str ''geocenter''], calls = [],
        result = Inl (ScaleValueError ''local'')\<rparr>
   \<and> [''origin'' \<mapsto> Str ''geocenter''] ''origin'' = Some (Str ''geocenter'')"
  by (simp add: propagateOrbits_def checkTime_def tdb_def)

text \<open>The theorem on the sample runs.\<close>

theorem invalid_origin_key_after_failure_witness:
  "propagateOrbits sample_env sample_orbits (Time sample_t0) (Time sample_t1) ''THOR''
     (Some [''origin'' \<mapsto> Str ''geocenter'', ''mu'' \<mapsto> Num 1]) =
     \<lparr>kwargs_after = Some ([''origin'' \<mapsto> Str ''geocenter'', ''mu'' \<mapsto> Num 1](''origin'' := None)),
      calls = [], result = Inl (ValueError origin_message)\<rparr>
   \<and> ([''origin'' \<mapsto> Str ''geocenter'', ''mu'' \<mapsto> Num 1](''origin'' := None)) ''origin'' = None
   \<and> [''origin'' \<mapsto> Str ''geocenter'', ''mu'' \<mapsto> Num 1](''origin'' := None) \<noteq>
       [''origin'' \<mapsto> Str ''geocenter'', ''mu'' \<mapsto> Num 1]
   \<and> kwargs_after (propagateOrbits sample_env sample_orbits NotTime (Time sample_t1) ''THOR''
        (Some [''origin'' \<mapsto> Str ''geocenter'', ''mu'' \<mapsto> Num 1])) =
       Some [''origin'' \<mapsto> Str ''geocenter'', ''mu'' \<mapsto> Num 1]
   \<and> isl (result (propagateOrbits sample_env sample_orbits NotTime (Time sample_t1) ''THOR''
        (Some [''origin'' \<mapsto> Str ''geocenter'', ''mu'' \<mapsto> Num 1])))"
  using invalid_origin_key_after_failure [where kw = "[''origin'' \<mapsto> Str ''geocenter'', ''mu'' \<mapsto> Num 1]"
      and v = "Str ''geocenter''" and ?t0.0 = NotTime and ?t1.0 = "Time sample_t1"
      and env = sample_env and orbits = sample_orbits and a = sample_t0 and b = sample_t1]
  by simp

end
